theory Spec2Isabelle
  imports Main
begin

section \<open>Load controller (media-load-controller.ts)\<close>

text \<open>
  \<^verbatim>\<open>MediaLoadController.onAttach\<close> hands its callback to one of three browser
  facilities. The browser side is modelled as the state those facilities keep:
  how many times the callback is queued for the next animation frame, how many
  times it is queued for an idle period, and the intersection observer created for
  the element. The journal records, in order, what the observer's handler does and
  each run of the callback. In the idle branch the dynamic import of
  \<^verbatim>\<open>maverick.js/std\<close> is taken to resolve, and that library's \<^verbatim>\<open>waitIdlePeriod\<close> to queue
  its argument for an idle period.
\<close>

datatype load_action = ObserverDisconnect | CallbackInvoked

record 'el intersection_observer =
  target :: 'el
  connected :: bool

record 'el load_env =
  frame_requests :: nat
  idle_requests :: nat
  observer :: "'el intersection_observer option"
  journal :: "load_action list"



text \<open>
  What the browser can do afterwards. An intersection delivery carries a non-empty
  list of entries, given as the first entry's \<^verbatim>\<open>isIntersecting\<close> and the others';
  a disconnected observer receives nothing.
\<close>

datatype browser_event = AnimationFrame | IdlePeriod | Intersection bool "bool list"

definition observer_callback :: "bool \<Rightarrow> bool list \<Rightarrow> 'el load_env \<Rightarrow> 'el load_env" where
  "observer_callback first others env =
     (if first
      then (let env1 = env\<lparr>observer := map_option (\<lambda>ob. ob\<lparr>connected := False\<rparr>) (observer env),
                            journal := journal env @ [ObserverDisconnect]\<rparr>
            in env1\<lparr>journal := journal env1 @ [CallbackInvoked]\<rparr>)
      else env)"

fun fire :: "browser_event \<Rightarrow> 'el load_env \<Rightarrow> 'el load_env" where
  "fire AnimationFrame env =
     env\<lparr>frame_requests := 0,
         journal := journal env @ replicate (frame_requests env) CallbackInvoked\<rparr>"
| "fire IdlePeriod env =
     env\<lparr>idle_requests := 0,
         journal := journal env @ replicate (idle_requests env) CallbackInvoked\<rparr>"
| "fire (Intersection first others) env =
     (case observer env of
        None \<Rightarrow> env
      | Some ob \<Rightarrow> if connected ob then observer_callback first others env else env)"

fun fire_all :: "browser_event list \<Rightarrow> 'el load_env \<Rightarrow> 'el load_env" where
  "fire_all [] env = env"
| "fire_all (ev # evs) env = fire_all evs (fire ev env)"

fun intersecting :: "browser_event \<Rightarrow> bool" where
  "intersecting (Intersection first others) = first"
| "intersecting AnimationFrame = False"
| "intersecting IdlePeriod = False"



section \<open>Volume slider element and slider store\<close>

text \<open>
  JavaScript numbers are kept abstract: the element's arithmetic is written with the
  operations of an arbitrary type \<open>'n\<close>, and \<^verbatim>\<open>round\<close> of \<^verbatim>\<open>utils/number.js\<close>, which is
  not among the sources, is a parameter. \<^verbatim>\<open>remoteControl.changeVolume\<close> leaves the
  element as a request; the requests issued so far are kept in order.
\<close>

datatype 'n media_request = VolumeChangeRequest 'n

record 'n volume_slider =
  disabled :: bool
  hidden :: bool
  orientation :: string
  label :: string
  step :: 'n
  keyboardStep :: 'n
  shiftKeyMultiplier :: 'n
  mediaVolume :: 'n
  currentVolume :: 'n
  attributes :: "string \<rightharpoonup> string"
  requests :: "'n media_request list"

definition new_volume_slider :: "'n::{numeral,times,inverse} \<Rightarrow> 'n volume_slider" where
  "new_volume_slider initialValue =
     \<lparr>disabled = False, hidden = False, orientation = ''horizontal'',
      label = ''Media volume slider'', step = 5 / 10, keyboardStep = 5 / 10,
      shiftKeyMultiplier = 10, mediaVolume = initialValue,
      currentVolume = initialValue * 100, attributes = Map.empty, requests = []\<rparr>"

definition volume :: "('n \<Rightarrow> nat \<Rightarrow> 'n) \<Rightarrow> 'n::{numeral,inverse} volume_slider \<Rightarrow> 'n" where
  "volume round w = round (currentVolume w / 100) 3"

definition update :: "string set \<Rightarrow> 'n::{numeral,times} volume_slider \<Rightarrow> 'n volume_slider" where
  "update changedProperties w =
     (if ''mediaVolume'' \<in> changedProperties
      then w\<lparr>currentVolume := mediaVolume w * 100\<rparr> else w)"










section \<open>DASH library loader (lib-loader.ts)\<close>

text \<open>
  A value that reaches a \<^verbatim>\<open>catch\<close> clause is an \<^verbatim>\<open>Error\<close> with its message, the
  \<^verbatim>\<open>TypeError\<close> the engine raises when a property of \<^verbatim>\<open>undefined\<close> is read, or any
  other value. \<^verbatim>\<open>coerceToError\<close> of \<^verbatim>\<open>utils/error\<close> is not among the sources and is a
  parameter of the model.
\<close>

datatype thrown = ErrorObject string | TypeErrorObject | ThrownValue string

datatype js_error = JsError (message: string)

datatype dash_constructor = DashConstructor nat

text \<open>
  The library handed to the loader is a URL string, \<^verbatim>\<open>undefined\<close>, or a function. Of a
  function the loader looks at three things: whether
  \<^verbatim>\<open>loader.prototype && loader.prototype !== Function\<close> holds, the function itself taken
  as the constructor, and what awaiting its call gives: a rejection (or a throw), or
  a module whose \<^verbatim>\<open>default\<close> is a constructor or is missing (or falsy).
\<close>

datatype loader_result = LoaderRejects thrown | LoaderResolves "dash_constructor option"

record dash_function =
  has_prototype :: bool
  as_constructor :: dash_constructor
  call_result :: loader_result

datatype dash_library = LibraryUrl string | LibraryUndefined | LibraryFunction dash_function

text \<open>
  The \<^verbatim>\<open>dashjs\<close> global as the loader finds it: its \<^verbatim>\<open>MediaPlayer\<close> when that is a
  function, and what \<^verbatim>\<open>supportsMediaSource()\<close> returns. The global may be absent.
\<close>

record dashjs_global =
  MediaPlayer :: "dash_constructor option"
  supportsMediaSource :: bool

record dash_env =
  dev :: bool
  loadScript :: "string \<Rightarrow> thrown option"
  window_dashjs :: "dashjs_global option"

text \<open>
  What the loader does to its context, in order: events dispatched on the player,
  calls of the callback given to the constructor, and error notifications to the
  media delegate (message, code, and the error when one is attached). Calls of the
  optional development logger are left out.
\<close>

datatype dash_event =
  DashLibLoadStart | DashLibLoaded dash_constructor | DashLibLoadError js_error | DashUnsupported

datatype dash_action =
  Dispatch dash_event | Callback dash_constructor | NotifyError string nat "js_error option"

type_synonym dash_trace = "dash_action list"

text \<open>
  A promise resolves or rejects. A callback returns or throws, and either way it may
  have acted on the context first: its result is what it threw, if anything, and the
  trace it leaves. Dispatching an event and notifying the delegate are taken to
  return.
\<close>

datatype 'a promise = Resolved 'a | Rejected thrown

type_synonym called = "thrown option \<times> dash_trace"

record load_callbacks =
  onLoadStart :: "(dash_trace \<Rightarrow> called) option"
  onLoaded :: "(dash_constructor \<Rightarrow> dash_trace \<Rightarrow> called) option"
  onLoadError :: "(thrown \<Rightarrow> dash_trace \<Rightarrow> called) option"

definition no_callbacks :: load_callbacks where
  "no_callbacks = \<lparr>onLoadStart = None, onLoaded = None, onLoadError = None\<rparr>"

definition call_onLoadStart :: "load_callbacks \<Rightarrow> dash_trace \<Rightarrow> called" where
  "call_onLoadStart cbs t = (case onLoadStart cbs of None \<Rightarrow> (None, t) | Some f \<Rightarrow> f t)"

definition call_onLoaded :: "load_callbacks \<Rightarrow> dash_constructor \<Rightarrow> dash_trace \<Rightarrow> called" where
  "call_onLoaded cbs ctor t = (case onLoaded cbs of None \<Rightarrow> (None, t) | Some f \<Rightarrow> f ctor t)"

definition call_onLoadError :: "load_callbacks \<Rightarrow> thrown \<Rightarrow> dash_trace \<Rightarrow> called" where
  "call_onLoadError cbs err t = (case onLoadError cbs of None \<Rightarrow> (None, t) | Some f \<Rightarrow> f err t)"

definition script_error_message :: "bool \<Rightarrow> string" where
  "script_error_message d =
     (if d then ''[vidstack] failed loading `dash.js`. Could not find a valid `Dash` constructor on window''
      else [])"

definition import_error_message :: "bool \<Rightarrow> string" where
  "import_error_message d =
     (if d then ''[vidstack] failed importing `dash.js`. Dynamic import returned invalid constructor.''
      else [])"

definition unsupported_message :: string where
  "unsupported_message = ''[vidstack] `dash.js` is not supported in this environment''"

text \<open>
  The statements of \<^verbatim>\<open>loadDASHScript\<close>'s \<^verbatim>\<open>try\<close> block up to the constructor: the script
  load may reject, reading \<^verbatim>\<open>MediaPlayer\<close> of an absent global raises, and a
  \<^verbatim>\<open>MediaPlayer\<close> that is no function makes the block throw its own error.
\<close>

definition script_constructor :: "dash_env \<Rightarrow> string \<Rightarrow> thrown + dash_constructor" where
  "script_constructor env src =
     (case loadScript env src of
        Some err \<Rightarrow> Inl err
      | None \<Rightarrow>
          (case window_dashjs env of
             None \<Rightarrow> Inl TypeErrorObject
           | Some dashjs \<Rightarrow>
               (case MediaPlayer dashjs of
                  None \<Rightarrow> Inl (ErrorObject (script_error_message (dev env)))
                | Some ctor \<Rightarrow> Inr ctor)))"

text \<open>
  The like for the \<^verbatim>\<open>try\<close> block of \<^verbatim>\<open>importDASH\<close>: the loader's call may reject or
  throw, and a module without a truthy \<^verbatim>\<open>default\<close> makes the block throw its own error.
\<close>

definition import_constructor :: "dash_env \<Rightarrow> dash_function \<Rightarrow> thrown + dash_constructor" where
  "import_constructor env f =
     (case call_result f of
        LoaderRejects err \<Rightarrow> Inl err
      | LoaderResolves None \<Rightarrow> Inl (ErrorObject (import_error_message (dev env)))
      | LoaderResolves (Some ctor) \<Rightarrow> Inr ctor)"

text \<open>
  Both \<^verbatim>\<open>try\<close> blocks end by calling \<^verbatim>\<open>onLoaded\<close> with the constructor, still inside the
  \<^verbatim>\<open>try\<close>: what that callback throws is caught like any other failure of the block.
  Both \<^verbatim>\<open>catch\<close> clauses call \<^verbatim>\<open>onLoadError\<close>, after which the function returns
  \<^verbatim>\<open>undefined\<close>; what \<^verbatim>\<open>onLoadError\<close> throws rejects the promise.
\<close>

definition try_onLoaded ::
  "load_callbacks \<Rightarrow> thrown + dash_constructor \<Rightarrow> dash_trace
     \<Rightarrow> (thrown + dash_constructor) \<times> dash_trace" where
  "try_onLoaded cbs found t =
     (case found of
        Inl err \<Rightarrow> (Inl err, t)
      | Inr ctor \<Rightarrow>
          (case call_onLoaded cbs ctor t of
             (None, t1) \<Rightarrow> (Inr ctor, t1)
           | (Some e, t1) \<Rightarrow> (Inl e, t1)))"

definition catch_onLoadError ::
  "load_callbacks \<Rightarrow> (thrown + dash_constructor) \<times> dash_trace
     \<Rightarrow> dash_constructor option promise \<times> dash_trace" where
  "catch_onLoadError cbs tried =
     (case tried of
        (Inr ctor, t) \<Rightarrow> (Resolved (Some ctor), t)
      | (Inl err, t) \<Rightarrow>
          (case call_onLoadError cbs err t of
             (None, t1) \<Rightarrow> (Resolved None, t1)
           | (Some e, t1) \<Rightarrow> (Rejected e, t1)))"

definition loadDASHScript ::
  "dash_env \<Rightarrow> dash_library \<Rightarrow> load_callbacks \<Rightarrow> dash_trace
     \<Rightarrow> dash_constructor option promise \<times> dash_trace" where
  "loadDASHScript env src cbs t =
     (case src of
        LibraryUrl url \<Rightarrow>
          (case call_onLoadStart cbs t of
             (Some e, t1) \<Rightarrow> (Rejected e, t1)
           | (None, t1) \<Rightarrow>
               catch_onLoadError cbs (try_onLoaded cbs (script_constructor env url) t1))
      | LibraryUndefined \<Rightarrow> (Resolved None, t)
      | LibraryFunction f \<Rightarrow> (Resolved None, t))"

text \<open>
  \<^verbatim>\<open>importDASH\<close> is given \<^verbatim>\<open>undefined\<close> or a function. For a function with a prototype
  \<^verbatim>\<open>onLoaded\<close> is called outside any \<^verbatim>\<open>try\<close>: what it throws rejects the promise.
\<close>

definition importDASH ::
  "dash_env \<Rightarrow> dash_function option \<Rightarrow> load_callbacks \<Rightarrow> dash_trace
     \<Rightarrow> dash_constructor option promise \<times> dash_trace" where
  "importDASH env loader cbs t =
     (case loader of
        None \<Rightarrow> (Resolved None, t)
      | Some f \<Rightarrow>
          (case call_onLoadStart cbs t of
             (Some e, t1) \<Rightarrow> (Rejected e, t1)
           | (None, t1) \<Rightarrow>
               if has_prototype f
               then (case call_onLoaded cbs (as_constructor f) t1 of
                       (Some e, t2) \<Rightarrow> (Rejected e, t2)
                     | (None, t2) \<Rightarrow> (Resolved (Some (as_constructor f)), t2))
               else catch_onLoadError cbs (try_onLoaded cbs (import_constructor env f) t1)))"

text \<open>
  The three private methods of \<^verbatim>\<open>DASHLibLoader\<close>. The callback given to the constructor
  is a parameter: called with a constructor it returns, or throws the value given.
  Its call is recorded either way.
\<close>

definition DASHLibLoader_onLoadStart :: "dash_trace \<Rightarrow> called" where
  "DASHLibLoader_onLoadStart t = (None, t @ [Dispatch DashLibLoadStart])"

definition DASHLibLoader_onLoaded ::
  "(dash_constructor \<Rightarrow> thrown option) \<Rightarrow> dash_constructor \<Rightarrow> dash_trace \<Rightarrow> called" where
  "DASHLibLoader_onLoaded callback ctor t =
     (callback ctor, t @ [Dispatch (DashLibLoaded ctor)] @ [Callback ctor])"

definition DASHLibLoader_onLoadError :: "(thrown \<Rightarrow> js_error) \<Rightarrow> thrown \<Rightarrow> dash_trace \<Rightarrow> called" where
  "DASHLibLoader_onLoadError coerceToError e t =
     (let error = coerceToError e
      in (None, t @ [Dispatch (DashLibLoadError error)]
                  @ [NotifyError (message error) 4 (Some error)]))"

definition isString :: "dash_library \<Rightarrow> bool" where
  "isString lib = (case lib of LibraryUrl url \<Rightarrow> True | _ \<Rightarrow> False)"

definition library_function :: "dash_library \<Rightarrow> dash_function option" where
  "library_function lib = (case lib of LibraryFunction f \<Rightarrow> Some f | _ \<Rightarrow> None)"

text \<open>\<^verbatim>\<open>await\<close> in an async function: a rejection of the awaited promise rejects its own.\<close>

definition await ::
  "'a promise \<times> dash_trace \<Rightarrow> ('a \<Rightarrow> dash_trace \<Rightarrow> 'b promise \<times> dash_trace)
     \<Rightarrow> 'b promise \<times> dash_trace" where
  "await awaited continue =
     (case awaited of
        (Rejected e, t) \<Rightarrow> (Rejected e, t)
      | (Resolved x, t) \<Rightarrow> continue x t)"

text \<open>
  The check that follows the load in \<^verbatim>\<open>_startLoading\<close>. Reading \<^verbatim>\<open>supportsMediaSource\<close>
  of an absent global raises outside every \<^verbatim>\<open>try\<close>, which rejects the promise.
\<close>

definition check_support ::
  "dash_env \<Rightarrow> dash_constructor \<Rightarrow> dash_trace \<Rightarrow> dash_constructor option promise \<times> dash_trace" where
  "check_support env ctor t =
     (case window_dashjs env of
        None \<Rightarrow> (Rejected TypeErrorObject, t)
      | Some dashjs \<Rightarrow>
          if \<not> supportsMediaSource dashjs
          then (Resolved None,
                t @ [Dispatch DashUnsupported] @ [NotifyError unsupported_message 4 None])
          else (Resolved (Some ctor), t))"

definition startLoading ::
  "(thrown \<Rightarrow> js_error) \<Rightarrow> (dash_constructor \<Rightarrow> thrown option) \<Rightarrow> dash_env \<Rightarrow> dash_library
     \<Rightarrow> dash_trace \<Rightarrow> dash_constructor option promise \<times> dash_trace" where
  "startLoading coerceToError callback env lib t =
     (let callbacks = \<lparr>onLoadStart = Some DASHLibLoader_onLoadStart,
                       onLoaded = Some (DASHLibLoader_onLoaded callback),
                       onLoadError = Some (DASHLibLoader_onLoadError coerceToError)\<rparr>
      in await (loadDASHScript env lib callbacks t) (\<lambda>ctor1 t1.
           await (if ctor1 = None \<and> \<not> isString lib
                  then importDASH env (library_function lib) callbacks t1
                  else (Resolved ctor1, t1)) (\<lambda>ctor2 t2.
             case ctor2 of
               None \<Rightarrow> (Resolved None, t2)
             | Some ctor \<Rightarrow> check_support env ctor t2)))"


text \<open>
  What a load gets hold of before any callback is called: nothing when no library is
  given, else a constructor or the failure of its \<^verbatim>\<open>try\<close> block. A function with a
  prototype is the constructor itself.
\<close>

definition obtained :: "dash_env \<Rightarrow> dash_library \<Rightarrow> (thrown + dash_constructor) option" where
  "obtained env lib =
     (case lib of
        LibraryUrl url \<Rightarrow> Some (script_constructor env url)
      | LibraryUndefined \<Rightarrow> None
      | LibraryFunction f \<Rightarrow>
          Some (if has_prototype f then Inr (as_constructor f) else import_constructor env f))"

definition passed_directly :: "dash_library \<Rightarrow> bool" where
  "passed_directly lib = (case lib of LibraryFunction f \<Rightarrow> has_prototype f | _ \<Rightarrow> False)"


fun error_notification :: "dash_action \<Rightarrow> bool" where
  "error_notification (NotifyError msg code err) = True"
| "error_notification a = False"

fun notified_code :: "dash_action \<Rightarrow> nat option" where
  "notified_code (NotifyError msg code err) = Some code"
| "notified_code a = None"

text \<open>The traces a load can leave, for stating what it did.\<close>

abbreviation loaded_trace :: "dash_constructor \<Rightarrow> dash_trace" where
  "loaded_trace ctor \<equiv> [Dispatch DashLibLoadStart, Dispatch (DashLibLoaded ctor), Callback ctor]"

abbreviation error_trace :: "js_error \<Rightarrow> dash_trace" where
  "error_trace error \<equiv>
     [Dispatch DashLibLoadStart, Dispatch (DashLibLoadError error),
      NotifyError (message error) 4 (Some error)]"

abbreviation unsupported_trace :: dash_trace where
  "unsupported_trace \<equiv> [Dispatch DashUnsupported, NotifyError unsupported_message 4 None]"

text \<open>
  A sample \<^verbatim>\<open>coerceToError\<close> and sample environments, for concrete runs: a script load
  that resolves or rejects with the URL as the thrown value, and a given global.
\<close>

fun coerceToError_sample :: "thrown \<Rightarrow> js_error" where
  "coerceToError_sample (ErrorObject m) = JsError m"
| "coerceToError_sample TypeErrorObject = JsError ''TypeError''"
| "coerceToError_sample (ThrownValue v) = JsError v"

definition env_sample :: "bool \<Rightarrow> dashjs_global option \<Rightarrow> dash_env" where
  "env_sample script_ok g =
     \<lparr>dev = False,
      loadScript = (\<lambda>url. if script_ok then None else Some (ThrownValue url)),
      window_dashjs = g\<rparr>"

text \<open>A callback that returns, and one that throws.\<close>

definition callback_returns :: "dash_constructor \<Rightarrow> thrown option" where
  "callback_returns ctor = None"

definition callback_throws :: "dash_constructor \<Rightarrow> thrown option" where
  "callback_throws ctor = Some (ThrownValue ''callback'')"

definition function_sample :: "bool \<Rightarrow> loader_result \<Rightarrow> dash_function" where
  "function_sample static result =
     \<lparr>has_prototype = static, as_constructor = DashConstructor 1, call_result = result\<rparr>"


section \<open>ARIA menu (aria/menu.ts)\<close>

text \<open>
  Elements are named by numbers; the page maps each to its attributes and to the
  three inline style properties the menu writes. Besides the elements the page holds
  what the menu reaches outside itself: the tree (\<^verbatim>\<open>parentElement\<close>, \<^verbatim>\<open>contains\<close>,
  \<^verbatim>\<open>querySelectorAll\<close> as the document answers them, the last with no answer for a
  string it would throw on), the module-level store
  \<^verbatim>\<open>activeMenu\<close>, the focused element, the animation-frame queue, pending timers, and
  in order of occurrence the calls of \<^verbatim>\<open>hideDocumentScrollbar\<close>, the events whose
  propagation was stopped, and the events dispatched on elements.
\<close>

type_synonym element_id = nat

record element =
  attrs :: "string \<rightharpoonup> string"
  style_position :: string
  style_pointerEvents :: string
  style_display :: string

datatype menu_event = MenuEvent (event_number: nat) (isKeyboardEvent: bool)

datatype frame_task = SetIsMenuOpen bool | MenuAttached element_id

datatype listener_target = OnElement element_id | OnBody

text \<open>
  What a disposal bin holds, one entry for each thing it can undo: a position
  watcher, a listener (\<^verbatim>\<open>listenEvent\<close>, \<^verbatim>\<open>onPress\<close>), the focus trap on an element, a
  timer to clear, the \<^verbatim>\<open>activeMenu\<close> subscription made for an element.
\<close>

datatype disposable =
    WatchPosition
  | Listener listener_target string
  | PressListener element_id
  | FocusTrap element_id
  | ClearTimeout nat
  | ActiveMenuSubscription element_id

datatype popper_call = PopperShow "menu_event option" | PopperHide "menu_event option"

text \<open>
  Each call of the actions \<^verbatim>\<open>menuTrigger(el)\<close> and \<^verbatim>\<open>menu(el)\<close> has a disposal bin of
  its own; what it registers is kept with the call that owns it.
\<close>

datatype action_owner = TriggerAction element_id | MenuAction element_id

record page =
  dom :: "element_id \<Rightarrow> element"
  parentElement :: "element_id \<Rightarrow> element_id option"
  contains :: "element_id \<Rightarrow> element_id \<Rightarrow> bool"
  querySelectorAll :: "element_id \<Rightarrow> string \<Rightarrow> element_id list option"
  body :: element_id
  activeMenu :: "element_id option"
  focused :: "element_id option"
  frame_tasks :: "frame_task list"
  timers :: "nat list"
  next_timer :: nat
  scrollbar_calls :: "bool list"
  stopped :: "menu_event list"
  dispatched :: "(element_id \<times> string) list"

text \<open>
  The variables \<^verbatim>\<open>createAriaMenu\<close> closes over, the listeners its two actions have
  registered and not yet disposed, and the requests handed to the popper. The
  popper is not among the sources: \<^verbatim>\<open>show\<close> and \<^verbatim>\<open>hide\<close> are taken to call the
  callback they are given at a time of the popper's choosing, so a call is kept as
  a request and the callback's body is a function of its own.
\<close>

record menu_state = page +
  menu_number :: nat
  triggerEl :: "element_id option"
  menuEl :: "element_id option"
  arrowEl :: "element_id option"
  openDisposal :: "disposable list"
  isMenuOpen :: bool
  listeners :: "(action_owner \<times> disposable) list"
  popper_calls :: "popper_call list"

record aria_menu_options =
  menu_type :: "string option"
  portal :: bool
  preventScroll :: bool
  defaultOpen :: bool
  hover :: bool
  submenu :: bool
  noOutSideClick :: bool
  noPlacement :: bool
  focus_selectors :: "string list option"
  close_selectors :: "string list option"

text \<open>Decimal rendering of the instance number in the two ids.\<close>

definition digit_char :: "nat \<Rightarrow> char" where
  "digit_char d = char_of (48 + d)"

fun decimal :: "nat \<Rightarrow> string" where
  "decimal n = (if n < 10 then [digit_char n] else decimal (n div 10) @ [digit_char (n mod 10)])"

declare decimal.simps [simp del]

definition triggerId :: "nat \<Rightarrow> string" where
  "triggerId n = ''aria-menu-trigger-'' @ decimal n"

definition menuId :: "nat \<Rightarrow> string" where
  "menuId n = ''aria-menu-'' @ decimal n"

text \<open>\<^verbatim>\<open>String(b)\<close> of a boolean.\<close>

definition js_String :: "bool \<Rightarrow> string" where
  "js_String b = (if b then ''true'' else ''false'')"

text \<open>
  \<^verbatim>\<open>createAriaMenu\<close> takes the module's counter \<^verbatim>\<open>id\<close> and the page as it stands, and
  gives the new instance with the incremented counter.
\<close>

definition createAriaMenu :: "aria_menu_options \<Rightarrow> nat \<Rightarrow> page \<Rightarrow> menu_state \<times> nat" where
  "createAriaMenu options id_counter pg =
     (page.extend pg
        (menu_state.fields (id_counter + 1) None None None [] (defaultOpen options) [] []),
      id_counter + 1)"

text \<open>Single effects on the page, one function for each kind of statement.\<close>

definition setAttribute :: "element_id \<Rightarrow> string \<Rightarrow> string \<Rightarrow> menu_state \<Rightarrow> menu_state" where
  "setAttribute el name v st =
     st\<lparr>dom := (dom st)(el := (dom st el)\<lparr>attrs := (attrs (dom st el))(name \<mapsto> v)\<rparr>)\<rparr>"

definition getAttribute :: "element_id \<Rightarrow> string \<Rightarrow> menu_state \<Rightarrow> string option" where
  "getAttribute el name st = attrs (dom st el) name"

definition set_position :: "element_id \<Rightarrow> string \<Rightarrow> menu_state \<Rightarrow> menu_state" where
  "set_position el v st = st\<lparr>dom := (dom st)(el := (dom st el)\<lparr>style_position := v\<rparr>)\<rparr>"

definition set_pointerEvents :: "element_id \<Rightarrow> string \<Rightarrow> menu_state \<Rightarrow> menu_state" where
  "set_pointerEvents el v st =
     st\<lparr>dom := (dom st)(el := (dom st el)\<lparr>style_pointerEvents := v\<rparr>)\<rparr>"

definition set_display :: "element_id \<Rightarrow> string \<Rightarrow> menu_state \<Rightarrow> menu_state" where
  "set_display el v st = st\<lparr>dom := (dom st)(el := (dom st el)\<lparr>style_display := v\<rparr>)\<rparr>"

definition body_append :: "element_id \<Rightarrow> menu_state \<Rightarrow> menu_state" where
  "body_append el st = st\<lparr>parentElement := (parentElement st)(el := Some (body st))\<rparr>"

definition focus :: "element_id \<Rightarrow> menu_state \<Rightarrow> menu_state" where
  "focus el st = st\<lparr>focused := Some el\<rparr>"

definition dispatchEvent :: "element_id \<Rightarrow> string \<Rightarrow> menu_state \<Rightarrow> menu_state" where
  "dispatchEvent el name st = st\<lparr>dispatched := dispatched st @ [(el, name)]\<rparr>"

definition stopPropagation :: "menu_event option \<Rightarrow> menu_state \<Rightarrow> menu_state" where
  "stopPropagation event st =
     (case event of None \<Rightarrow> st | Some e \<Rightarrow> st\<lparr>stopped := stopped st @ [e]\<rparr>)"

definition hideDocumentScrollbar :: "bool \<Rightarrow> menu_state \<Rightarrow> menu_state" where
  "hideDocumentScrollbar hide st = st\<lparr>scrollbar_calls := scrollbar_calls st @ [hide]\<rparr>"

definition requestAnimationFrame :: "frame_task \<Rightarrow> menu_state \<Rightarrow> menu_state" where
  "requestAnimationFrame task st = st\<lparr>frame_tasks := frame_tasks st @ [task]\<rparr>"

definition add_open :: "disposable \<Rightarrow> menu_state \<Rightarrow> menu_state" where
  "add_open d st = st\<lparr>openDisposal := openDisposal st @ [d]\<rparr>"

definition add_listeners :: "action_owner \<Rightarrow> disposable list \<Rightarrow> menu_state \<Rightarrow> menu_state" where
  "add_listeners owner ds st = st\<lparr>listeners := listeners st @ map (Pair owner) ds\<rparr>"

definition remove_listeners :: "action_owner \<Rightarrow> menu_state \<Rightarrow> menu_state" where
  "remove_listeners owner st = st\<lparr>listeners := filter (\<lambda>l. fst l \<noteq> owner) (listeners st)\<rparr>"

text \<open>\<^verbatim>\<open>_triggerEl?.\<close> and \<^verbatim>\<open>_menuEl?.\<close>: the effect when the element is there, none otherwise.\<close>

definition on_trigger :: "(element_id \<Rightarrow> menu_state \<Rightarrow> menu_state) \<Rightarrow> menu_state \<Rightarrow> menu_state" where
  "on_trigger f st = (case triggerEl st of None \<Rightarrow> st | Some t \<Rightarrow> f t st)"

definition on_menu :: "(element_id \<Rightarrow> menu_state \<Rightarrow> menu_state) \<Rightarrow> menu_state \<Rightarrow> menu_state" where
  "on_menu f st = (case menuEl st of None \<Rightarrow> st | Some m \<Rightarrow> f m st)"

text \<open>
  \<^verbatim>\<open>_openDisposal.dispose()\<close>: every entry is undone and the bin is emptied. Undoing a
  listener, a watcher or the trap is the entry's leaving the bin; undoing a timer
  takes it off the pending timers.
\<close>

fun cleared_timers :: "disposable list \<Rightarrow> nat list" where
  "cleared_timers [] = []"
| "cleared_timers (ClearTimeout i # ds) = i # cleared_timers ds"
| "cleared_timers (d # ds) = cleared_timers ds"

definition dispose_open :: "menu_state \<Rightarrow> menu_state" where
  "dispose_open st =
     st\<lparr>timers := filter (\<lambda>i. i \<notin> set (cleared_timers (openDisposal st))) (timers st),
        openDisposal := []\<rparr>"

definition onShow :: "menu_event option \<Rightarrow> menu_state \<Rightarrow> menu_state" where
  "onShow event st = st\<lparr>popper_calls := popper_calls st @ [PopperShow event]\<rparr>"

definition onHide :: "menu_event option \<Rightarrow> menu_state \<Rightarrow> menu_state" where
  "onHide event st = st\<lparr>popper_calls := popper_calls st @ [PopperHide event]\<rparr>"

text \<open>
  The test that ends \<^verbatim>\<open>onChange\<close> early:
  \<^verbatim>\<open>_menuEl?.getAttribute('aria-hidden') == String(!open)\<close>.
\<close>

definition hidden_already :: "bool \<Rightarrow> menu_state \<Rightarrow> bool" where
  "hidden_already open st =
     (case menuEl st of
        None \<Rightarrow> False
      | Some m \<Rightarrow> getAttribute m ''aria-hidden'' st = Some (js_String (\<not> open)))"

definition requested_open :: "bool option \<Rightarrow> menu_state \<Rightarrow> bool" where
  "requested_open force st = (case force of Some f \<Rightarrow> f | None \<Rightarrow> \<not> isMenuOpen st)"

text \<open>\<^verbatim>\<open>ariaBool\<close> of \<^verbatim>\<open>utils/aria\<close> is not among the sources and is a parameter.\<close>

definition change_menu ::
  "(bool \<Rightarrow> string) \<Rightarrow> aria_menu_options \<Rightarrow> menu_event option \<Rightarrow> bool
     \<Rightarrow> menu_state \<Rightarrow> menu_state" where
  "change_menu ariaBool options event open st =
     (let st2 = on_trigger (\<lambda>t. setAttribute t ''aria-expanded'' (ariaBool open)) st;
          st3 = on_menu (\<lambda>m. setAttribute m ''aria-hidden'' (ariaBool (\<not> open))) st2;
          st4 = (if preventScroll options then hideDocumentScrollbar open st3 else st3);
          st5 = requestAnimationFrame (SetIsMenuOpen open) st4
      in if \<not> open then onHide event st5 else onShow event st5)"

definition onChange ::
  "(bool \<Rightarrow> string) \<Rightarrow> aria_menu_options \<Rightarrow> menu_event option \<Rightarrow> bool option
     \<Rightarrow> menu_state \<Rightarrow> menu_state" where
  "onChange ariaBool options event force st =
     (let st1 = stopPropagation event st;
          open = requested_open force st1
      in if hidden_already open st1 then st1
         else change_menu ariaBool options event open st1)"

definition openMenu ::
  "(bool \<Rightarrow> string) \<Rightarrow> aria_menu_options \<Rightarrow> menu_event option \<Rightarrow> menu_state \<Rightarrow> menu_state" where
  "openMenu ariaBool options event st = onChange ariaBool options event (Some True) st"

definition closeMenu ::
  "(bool \<Rightarrow> string) \<Rightarrow> aria_menu_options \<Rightarrow> menu_event option \<Rightarrow> menu_state \<Rightarrow> menu_state" where
  "closeMenu ariaBool options event st = onChange ariaBool options event (Some False) st"

text \<open>
  The subscriber \<^verbatim>\<open>menu(el)\<close> gives to \<^verbatim>\<open>activeMenu\<close>. Subscribing calls it at once
  with the store's value; \<^verbatim>\<open>activeMenu.set\<close>, as this instance sees it, stores the
  value and calls the instance's own subscribers with it.
\<close>

definition activeMenu_subscriber ::
  "(bool \<Rightarrow> string) \<Rightarrow> aria_menu_options \<Rightarrow> element_id \<Rightarrow> element_id option
     \<Rightarrow> menu_state \<Rightarrow> menu_state" where
  "activeMenu_subscriber ariaBool options el current st =
     (case current of
        None \<Rightarrow> st
      | Some c \<Rightarrow>
          if el \<noteq> c \<and> \<not> contains st el c
          then onChange ariaBool options None (Some False) st else st)"

definition activeMenu_subscribe ::
  "(bool \<Rightarrow> string) \<Rightarrow> aria_menu_options \<Rightarrow> element_id \<Rightarrow> menu_state \<Rightarrow> menu_state" where
  "activeMenu_subscribe ariaBool options el st =
     activeMenu_subscriber ariaBool options el (activeMenu st) st"

fun subscribed :: "(action_owner \<times> disposable) list \<Rightarrow> element_id list" where
  "subscribed [] = []"
| "subscribed ((owner, ActiveMenuSubscription el) # ds) = el # subscribed ds"
| "subscribed (d # ds) = subscribed ds"

definition activeMenu_set ::
  "(bool \<Rightarrow> string) \<Rightarrow> aria_menu_options \<Rightarrow> element_id option \<Rightarrow> menu_state \<Rightarrow> menu_state" where
  "activeMenu_set ariaBool options v st =
     fold (\<lambda>el. activeMenu_subscriber ariaBool options el v) (subscribed (listeners st))
       (st\<lparr>activeMenu := v\<rparr>)"

definition setTimeout :: "menu_state \<Rightarrow> menu_state" where
  "setTimeout st = st\<lparr>timers := timers st @ [next_timer st], next_timer := next_timer st + 1\<rparr>"

definition closeSubmenuOnPointerLeave :: "aria_menu_options \<Rightarrow> menu_state \<Rightarrow> menu_state" where
  "closeSubmenuOnPointerLeave options st =
     (if \<not> submenu options then st
      else add_open (ClearTimeout (next_timer st)) (setTimeout st))"

text \<open>The timer of \<^verbatim>\<open>closeSubmenuOnPointerLeave\<close> running after its 500 ms.\<close>

definition submenu_timer_fires :: "nat \<Rightarrow> menu_state \<Rightarrow> menu_state" where
  "submenu_timer_fires i st =
     (if i \<notin> set (timers st) then st
      else on_menu (\<lambda>m. add_open (Listener (OnElement m) ''pointerleave''))
             (st\<lparr>timers := filter (\<lambda>j. j \<noteq> i) (timers st)\<rparr>))"

text \<open>
  \<^verbatim>\<open>closeOnSelect\<close> joins the close selectors with commas and asks the menu element for
  the matching elements. \<^verbatim>\<open>querySelectorAll\<close> throws a \<^verbatim>\<open>SyntaxError\<close> on the empty
  string, which is what an empty list of selectors joins to, and on whatever else
  the document does not accept as a selector. A throw ends \<^verbatim>\<open>closeOnSelect\<close> before it
  has added a listener.
\<close>

fun join_selectors :: "string list \<Rightarrow> string" where
  "join_selectors [] = []"
| "join_selectors [s] = s"
| "join_selectors (s # ss) = s @ '','' @ join_selectors ss"

definition query_close_targets :: "menu_state \<Rightarrow> element_id \<Rightarrow> string list \<Rightarrow> element_id list option" where
  "query_close_targets st m sel =
     (if join_selectors sel = [] then None else querySelectorAll st m (join_selectors sel))"

definition closeOnSelect :: "aria_menu_options \<Rightarrow> menu_state \<Rightarrow> menu_state option" where
  "closeOnSelect options st =
     (case menuEl st of
        None \<Rightarrow> Some st
      | Some m \<Rightarrow>
          (case close_selectors options of
             None \<Rightarrow> Some st
           | Some sel \<Rightarrow>
               (case query_close_targets st m sel of
                  None \<Rightarrow> None
                | Some closeTargets \<Rightarrow>
                    Some (fold (\<lambda>closeEl s.
                                  add_open (Listener (OnElement closeEl) ''pointerup'')
                                    (add_open (Listener (OnElement closeEl) ''keydown'') s))
                            closeTargets st))))"

definition is_keyboard :: "menu_event option \<Rightarrow> bool" where
  "is_keyboard event = (case event of None \<Rightarrow> False | Some e \<Rightarrow> isKeyboardEvent e)"

text \<open>
  The callback \<^verbatim>\<open>onShow\<close> hands to \<^verbatim>\<open>_popper.show\<close>. It returns, or it throws what
  \<^verbatim>\<open>closeOnSelect\<close> throws and leaves the page as it was at that point.
\<close>

datatype 's completion = Returned 's | Threw 's

fun state_of :: "'s completion \<Rightarrow> 's" where
  "state_of (Returned s) = s"
| "state_of (Threw s) = s"

definition show_menu_element :: "menu_event option \<Rightarrow> element_id \<Rightarrow> menu_state \<Rightarrow> menu_state" where
  "show_menu_element event m st =
     (let a = set_pointerEvents m [] st;
          b = dispatchEvent m ''aria-open'' a
      in if is_keyboard event then add_open (FocusTrap m) (focus m b) else b)"

definition activeMenu_set_menuEl ::
  "(bool \<Rightarrow> string) \<Rightarrow> aria_menu_options \<Rightarrow> menu_state \<Rightarrow> menu_state" where
  "activeMenu_set_menuEl ariaBool options st = activeMenu_set ariaBool options (menuEl st) st"

definition onShow_after_select ::
  "(bool \<Rightarrow> string) \<Rightarrow> aria_menu_options \<Rightarrow> menu_event option \<Rightarrow> menu_state \<Rightarrow> menu_state" where
  "onShow_after_select ariaBool options event st3 =
     (let st4 = closeSubmenuOnPointerLeave options st3;
          st5 = on_menu (show_menu_element event) st4
      in activeMenu_set_menuEl ariaBool options st5)"

definition onShow_callback ::
  "(bool \<Rightarrow> string) \<Rightarrow> aria_menu_options \<Rightarrow> menu_event option \<Rightarrow> menu_state
     \<Rightarrow> menu_state completion" where
  "onShow_callback ariaBool options event st =
     (let st1 = (if \<not> noPlacement options then add_open WatchPosition st else st);
          st2 = (if \<not> noOutSideClick options
                 then add_open (Listener OnBody ''pointerup'') st1 else st1)
      in case closeOnSelect options st2 of
           None \<Rightarrow> Threw st2
         | Some st3 \<Rightarrow> Returned (onShow_after_select ariaBool options event st3))"

text \<open>The callback \<^verbatim>\<open>onHide\<close> hands to \<^verbatim>\<open>_popper.hide\<close>.\<close>

definition hide_menu_element :: "element_id \<Rightarrow> menu_state \<Rightarrow> menu_state" where
  "hide_menu_element m st = dispatchEvent m ''aria-close'' (set_pointerEvents m ''none'' st)"

definition activeMenu_release ::
  "(bool \<Rightarrow> string) \<Rightarrow> aria_menu_options \<Rightarrow> menu_state \<Rightarrow> menu_state" where
  "activeMenu_release ariaBool options st =
     (if activeMenu st = menuEl st then activeMenu_set ariaBool options None st else st)"

definition onHide_callback ::
  "(bool \<Rightarrow> string) \<Rightarrow> aria_menu_options \<Rightarrow> menu_event option \<Rightarrow> menu_state \<Rightarrow> menu_state" where
  "onHide_callback ariaBool options event st =
     (let st1 = dispose_open st;
          st2 = (if is_keyboard event then on_trigger focus st1 else st1);
          st3 = on_menu hide_menu_element st2
      in activeMenu_release ariaBool options st3)"

text \<open>
  The popper calling back, oldest request first, and the page after it has done so,
  whether the callback returned or threw.
\<close>

fun popper_callback ::
  "(bool \<Rightarrow> string) \<Rightarrow> aria_menu_options \<Rightarrow> popper_call \<Rightarrow> menu_state
     \<Rightarrow> menu_state completion" where
  "popper_callback ariaBool options (PopperShow event) st = onShow_callback ariaBool options event st"
| "popper_callback ariaBool options (PopperHide event) st =
     Returned (onHide_callback ariaBool options event st)"

definition popper_calls_back ::
  "(bool \<Rightarrow> string) \<Rightarrow> aria_menu_options \<Rightarrow> menu_state \<Rightarrow> menu_state completion" where
  "popper_calls_back ariaBool options st =
     (case popper_calls st of
        [] \<Rightarrow> Returned st
      | c # cs \<Rightarrow> popper_callback ariaBool options c (st\<lparr>popper_calls := cs\<rparr>))"

definition after_callback ::
  "(bool \<Rightarrow> string) \<Rightarrow> aria_menu_options \<Rightarrow> menu_state \<Rightarrow> menu_state" where
  "after_callback ariaBool options st = state_of (popper_calls_back ariaBool options st)"

text \<open>
  The focus trap is not among the sources. It is created with \<^verbatim>\<open>onEscape\<close>, which it
  is taken to call with the keyboard event when Escape is pressed while the trap is
  on an element; with no trap in place the key reaches no handler of the menu.
\<close>

definition onEscape ::
  "(bool \<Rightarrow> string) \<Rightarrow> aria_menu_options \<Rightarrow> menu_event \<Rightarrow> menu_state \<Rightarrow> menu_state" where
  "onEscape ariaBool options event st = onChange ariaBool options (Some event) (Some False) st"

fun is_trap :: "disposable \<Rightarrow> bool" where
  "is_trap (FocusTrap el) = True"
| "is_trap d = False"

definition trapped :: "menu_state \<Rightarrow> element_id \<Rightarrow> bool" where
  "trapped st el = (FocusTrap el \<in> set (openDisposal st))"

definition escape_pressed ::
  "(bool \<Rightarrow> string) \<Rightarrow> aria_menu_options \<Rightarrow> menu_event \<Rightarrow> menu_state \<Rightarrow> menu_state" where
  "escape_pressed ariaBool options event st =
     (if list_ex is_trap (openDisposal st) then onEscape ariaBool options event st else st)"

text \<open>The three actions of the instance, and what their \<^verbatim>\<open>destroy\<close> does.\<close>

definition trigger_listeners :: "aria_menu_options \<Rightarrow> element_id \<Rightarrow> disposable list" where
  "trigger_listeners options el =
     [PressListener el]
     @ (if hover options then [Listener (OnElement el) ''pointerenter''] else [])
     @ [Listener (OnElement el) ''keydown'']"

definition set_trigger_role :: "element_id \<Rightarrow> menu_state \<Rightarrow> menu_state" where
  "set_trigger_role el st =
     (if getAttribute el ''role'' st = None then setAttribute el ''role'' ''button'' st else st)"

definition menuTrigger :: "aria_menu_options \<Rightarrow> element_id \<Rightarrow> menu_state \<Rightarrow> menu_state" where
  "menuTrigger options el st =
     (let triggerId' = triggerId (menu_number st);
          menuId' = menuId (menu_number st);
          st1 = setAttribute el ''id'' triggerId' st;
          st2 = set_trigger_role el st1;
          st3 = setAttribute el ''aria-controls'' menuId' st2;
          st4 = setAttribute el ''aria-expanded'' ''false'' st3;
          st5 = setAttribute el ''aria-haspopup''
                  (case menu_type options of None \<Rightarrow> ''menu'' | Some ty \<Rightarrow> ty) st4;
          st6 = st5\<lparr>triggerEl := Some el\<rparr>
      in add_listeners (TriggerAction el) (trigger_listeners options el) st6)"

definition menuTrigger_destroy :: "aria_menu_options \<Rightarrow> element_id \<Rightarrow> menu_state \<Rightarrow> menu_state" where
  "menuTrigger_destroy options el st =
     (let st1 = (if isMenuOpen st \<and> preventScroll options
                 then hideDocumentScrollbar False st else st);
          st2 = dispose_open st1;
          st3 = remove_listeners (TriggerAction el) st2
      in st3\<lparr>triggerEl := None\<rparr>)"

definition menu_listeners :: "aria_menu_options \<Rightarrow> element_id \<Rightarrow> disposable list" where
  "menu_listeners options el =
     (if hover options \<and> \<not> submenu options then [Listener (OnElement el) ''pointerleave''] else [])
     @ (if submenu options then [Listener (OnElement el) ''keydown''] else [])
     @ [Listener (OnElement el) ''click'', Listener (OnElement el) ''pointerup'']
     @ (if \<not> noOutSideClick options then [ActiveMenuSubscription el] else [])"

definition place_menu :: "aria_menu_options \<Rightarrow> element_id \<Rightarrow> menu_state \<Rightarrow> menu_state" where
  "place_menu options el st =
     (if portal options then body_append el st
      else if \<not> noPlacement options then set_position el ''absolute'' st
      else st)"

definition menu ::
  "(bool \<Rightarrow> string) \<Rightarrow> aria_menu_options \<Rightarrow> element_id \<Rightarrow> menu_state \<Rightarrow> menu_state" where
  "menu ariaBool options el st =
     (let triggerId' = triggerId (menu_number st);
          menuId' = menuId (menu_number st);
          st1 = st\<lparr>menuEl := Some el\<rparr>;
          st2 = place_menu options el st1;
          st3 = set_pointerEvents el ''none'' st2;
          st4 = set_display el ''none'' st3;
          st5 = setAttribute el ''id'' menuId' st4;
          st6 = setAttribute el ''role'' ''menu'' st5;
          st7 = setAttribute el ''tabindex'' ''-1'' st6;
          st8 = setAttribute el ''aria-hidden'' ''true'' st7;
          st9 = setAttribute el ''aria-describedby'' triggerId' st8;
          st10 = (if \<not> noOutSideClick options
                  then activeMenu_subscribe ariaBool options el st9 else st9);
          st11 = add_listeners (MenuAction el) (menu_listeners options el) st10
      in requestAnimationFrame (MenuAttached el) st11)"

definition menu_destroy :: "element_id \<Rightarrow> menu_state \<Rightarrow> menu_state" where
  "menu_destroy el st =
     (let st1 = dispose_open st;
          st2 = remove_listeners (MenuAction el) st1
      in st2\<lparr>menuEl := None\<rparr>)"

definition menuArrow :: "element_id \<Rightarrow> menu_state \<Rightarrow> menu_state" where
  "menuArrow el st = st\<lparr>arrowEl := Some el\<rparr>"

definition menuArrow_destroy :: "menu_state \<Rightarrow> menu_state" where
  "menuArrow_destroy st = st\<lparr>arrowEl := None\<rparr>"

text \<open>
  The animation-frame callbacks. The one \<^verbatim>\<open>menu(el)\<close> queues walks up from the
  element's parent to the nearest element with role \<^verbatim>\<open>menu\<close>; the walk is a loop, which
  on a tree ends.
\<close>

partial_function (option) closest_menu ::
  "(element_id \<Rightarrow> element) \<Rightarrow> (element_id \<Rightarrow> element_id option) \<Rightarrow> element_id option
     \<Rightarrow> element_id option option" where
  "closest_menu d par p =
     (case p of
        None \<Rightarrow> Some None
      | Some q \<Rightarrow>
          if attrs (d q) ''role'' \<noteq> Some ''menu'' then closest_menu d par (par q)
          else Some (Some q))"

definition listen_to_parent :: "element_id \<Rightarrow> element_id option \<Rightarrow> menu_state \<Rightarrow> menu_state" where
  "listen_to_parent el found st =
     (case found of
        None \<Rightarrow> st
      | Some p \<Rightarrow> add_listeners (MenuAction el) [Listener (OnElement p) ''aria-close''] st)"

definition open_by_default ::
  "(bool \<Rightarrow> string) \<Rightarrow> aria_menu_options \<Rightarrow> menu_state \<Rightarrow> menu_state" where
  "open_by_default ariaBool options st =
     (if defaultOpen options then onChange ariaBool options None (Some True) st else st)"

definition menu_frame_callback ::
  "(bool \<Rightarrow> string) \<Rightarrow> aria_menu_options \<Rightarrow> element_id \<Rightarrow> menu_state \<Rightarrow> menu_state option" where
  "menu_frame_callback ariaBool options el st =
     (case closest_menu (dom st) (parentElement st) (parentElement st el) of
        None \<Rightarrow> None
      | Some found \<Rightarrow> Some (open_by_default ariaBool options (listen_to_parent el found st)))"

fun frame_callback ::
  "(bool \<Rightarrow> string) \<Rightarrow> aria_menu_options \<Rightarrow> frame_task \<Rightarrow> menu_state \<Rightarrow> menu_state option" where
  "frame_callback ariaBool options (SetIsMenuOpen b) st = Some (st\<lparr>isMenuOpen := b\<rparr>)"
| "frame_callback ariaBool options (MenuAttached el) st = menu_frame_callback ariaBool options el st"

definition animation_frame ::
  "(bool \<Rightarrow> string) \<Rightarrow> aria_menu_options \<Rightarrow> menu_state \<Rightarrow> menu_state option" where
  "animation_frame ariaBool options st =
     (case frame_tasks st of
        [] \<Rightarrow> Some st
      | task # tasks \<Rightarrow> frame_callback ariaBool options task (st\<lparr>frame_tasks := tasks\<rparr>))"

text \<open>Sample values for concrete runs.\<close>

definition ariaBool_sample :: "bool \<Rightarrow> string" where
  "ariaBool_sample b = (if b then ''true'' else ''false'')"

definition options_sample :: aria_menu_options where
  "options_sample =
     \<lparr>menu_type = None, portal = False, preventScroll = True, defaultOpen = False,
      hover = False, submenu = False, noOutSideClick = False, noPlacement = False,
      focus_selectors = None, close_selectors = None\<rparr>"

definition element_sample :: element where
  "element_sample =
     \<lparr>attrs = Map.empty, style_position = [], style_pointerEvents = [], style_display = []\<rparr>"

definition page_sample :: page where
  "page_sample =
     \<lparr>dom = (\<lambda>el. element_sample), parentElement = (\<lambda>el. if el = 0 then None else Some 0),
      contains = (\<lambda>a b. a = b \<or> a = 0), querySelectorAll = (\<lambda>el sel. Some []), body = 0,
      activeMenu = None, focused = None, frame_tasks = [], timers = [], next_timer = 0,
      scrollbar_calls = [], stopped = [], dispatched = []\<rparr>"

text \<open>A page with a trigger on element 1 and a menu on element 2, freshly attached.\<close>

definition attached_sample :: menu_state where
  "attached_sample =
     menu ariaBool_sample options_sample 2
       (menuTrigger options_sample 1 (fst (createAriaMenu options_sample 0 page_sample)))"

text \<open>
  Whether the query of \<^verbatim>\<open>closeOnSelect\<close> returns, and the listeners \<^verbatim>\<open>closeOnSelect\<close>
  then adds, written as a list.
\<close>

definition close_query_returns :: "aria_menu_options \<Rightarrow> menu_state \<Rightarrow> bool" where
  "close_query_returns options st =
     (case menuEl st of
        None \<Rightarrow> True
      | Some m \<Rightarrow>
          (case close_selectors options of
             None \<Rightarrow> True
           | Some sel \<Rightarrow> query_close_targets st m sel \<noteq> None))"

definition select_listeners :: "aria_menu_options \<Rightarrow> menu_state \<Rightarrow> disposable list" where
  "select_listeners options st =
     (case menuEl st of
        None \<Rightarrow> []
      | Some m \<Rightarrow>
          (case close_selectors options of
             None \<Rightarrow> []
           | Some sel \<Rightarrow>
               (case query_close_targets st m sel of
                  None \<Rightarrow> []
                | Some closeTargets \<Rightarrow>
                    concat (map (\<lambda>closeEl. [Listener (OnElement closeEl) ''keydown'',
                                              Listener (OnElement closeEl) ''pointerup''])
                      closeTargets))))"

text \<open>The sample menu opened by a pointer event, after the popper has called back.\<close>

definition pointer_opened_sample :: menu_state where
  "pointer_opened_sample =
     after_callback ariaBool_sample options_sample
       (openMenu ariaBool_sample options_sample (Some (MenuEvent 1 False)) attached_sample)"

text \<open>Options whose list of close selectors is empty.\<close>

definition options_no_selectors :: aria_menu_options where
  "options_no_selectors = options_sample\<lparr>close_selectors := Some []\<rparr>"

section \<open>Load controller: the trigger decides when the callback runs\<close>

lemma fire_all_append: "fire_all (xs @ ys) env = fire_all ys (fire_all xs env)"
  by (induction xs arbitrary: env) simp_all



lemma fire_all_waiting:
  "frame_requests env = 0 \<Longrightarrow> idle_requests env = 0 \<Longrightarrow>
   observer env = Some ob \<Longrightarrow> connected ob \<Longrightarrow> \<not> list_ex intersecting evs \<Longrightarrow>
   fire_all evs env = env"
proof (induction evs)
  case Nil
  show ?case by simp
next
  case (Cons ev evs)
  have "fire ev env = env"
    using Cons.prems by (cases ev) (simp_all add: observer_callback_def)
  with Cons show ?case by simp
qed





section \<open>Volume slider: what its listeners change\<close>






text \<open>
  What the element holds once the volume context has changed, in the numbers' own
  arithmetic.
\<close>

lemma volume_after_context_update:
  "currentVolume (update {''mediaVolume''} (w\<lparr>mediaVolume := v\<rparr>)) = v * 100
   \<and> volume round (update {''mediaVolume''} (w\<lparr>mediaVolume := v\<rparr>)) = round (v * 100 / 100) 3"
  by (simp add: update_def volume_def)

section \<open>DASH library loader: lifecycle events and failures\<close>

lemmas loader_calls =
  call_onLoadStart_def call_onLoaded_def call_onLoadError_def DASHLibLoader_onLoadStart_def
  DASHLibLoader_onLoaded_def DASHLibLoader_onLoadError_def try_onLoaded_def
  catch_onLoadError_def await_def Let_def

text \<open>
  A whole load from an empty trace. A callback that throws is caught and reported as a
  load error when the constructor came from a script or a dynamic import, and rejects
  the promise when the constructor was passed in directly.
\<close>

lemma startLoading_result:
  "startLoading coerce callback env lib [] =
     (case obtained env lib of
        None \<Rightarrow> (Resolved None, [])
      | Some (Inl e) \<Rightarrow> (Resolved None, error_trace (coerce e))
      | Some (Inr ctor) \<Rightarrow>
          (case callback ctor of
             None \<Rightarrow> check_support env ctor (loaded_trace ctor)
           | Some e \<Rightarrow>
               if passed_directly lib then (Rejected e, loaded_trace ctor)
               else (Resolved None,
                     loaded_trace ctor
                     @ [Dispatch (DashLibLoadError (coerce e)),
                        NotifyError (message (coerce e)) 4 (Some (coerce e))])))"
proof (cases lib)
  case (LibraryUrl url)
  then show ?thesis
    by (simp add: startLoading_def loadDASHScript_def isString_def obtained_def
        passed_directly_def loader_calls split: sum.splits option.splits)
next
  case LibraryUndefined
  then show ?thesis
    by (simp add: startLoading_def loadDASHScript_def importDASH_def isString_def
        library_function_def obtained_def loader_calls)
next
  case (LibraryFunction f)
  then show ?thesis
    by (simp add: startLoading_def loadDASHScript_def importDASH_def isString_def
        library_function_def obtained_def passed_directly_def loader_calls
        split: sum.splits option.splits)
qed





text \<open>
  What the code does when the callback throws after a script has loaded: the load
  reports both \<^verbatim>\<open>dash-lib-loaded\<close> and \<^verbatim>\<open>dash-lib-load-error\<close>.
\<close>

lemma throwing_callback_after_script:
  "script_constructor env url = Inr ctor \<Longrightarrow> callback ctor = Some e \<Longrightarrow>
   startLoading coerce callback env (LibraryUrl url) []
     = (Resolved None,
        loaded_trace ctor
        @ [Dispatch (DashLibLoadError (coerce e)),
           NotifyError (message (coerce e)) 4 (Some (coerce e))])"
  by (simp add: startLoading_result obtained_def passed_directly_def)

text \<open>
  C8. The claim is that every failure of the load becomes an error report and that
  \<^verbatim>\<open>_startLoading\<close> then resolves to \<^verbatim>\<open>null\<close>. The code misses one: a constructor is
  passed in directly, the callback returns, and there is no \<^verbatim>\<open>dashjs\<close> global. After
  the start and loaded events and the callback, reading \<^verbatim>\<open>supportsMediaSource\<close> raises
  outside every \<^verbatim>\<open>try\<close>: the promise rejects, and no event and no notification
  reports it.
\<close>

theorem missing_global_rejects_unreported:
  "startLoading coerceToError_sample callback_returns (env_sample True None)
     (LibraryFunction (function_sample True (LoaderResolves None))) []
     = (Rejected TypeErrorObject,
        [Dispatch DashLibLoadStart, Dispatch (DashLibLoaded (DashConstructor 1)),
         Callback (DashConstructor 1)])"
  by (simp add: startLoading_result obtained_def function_sample_def callback_returns_def
      check_support_def env_sample_def)

text \<open>
  The failures the code does report, each resolving to \<^verbatim>\<open>null\<close>: a rejected script
  load, a loaded script that leaves no global or no \<^verbatim>\<open>MediaPlayer\<close> function, a dynamic
  import that rejects or gives no constructor, and, where the global is present and
  the callback has returned, \<^verbatim>\<open>supportsMediaSource()\<close> being false. A source that is no
  string makes \<^verbatim>\<open>loadDASHScript\<close> return \<^verbatim>\<open>undefined\<close> at once.
\<close>

lemma reported_failures:
  "(\<not> isString src \<longrightarrow> loadDASHScript env src cbs t = (Resolved None, t))
   \<and> (loadScript env url = Some e \<longrightarrow>
        startLoading coerce callback env (LibraryUrl url) []
          = (Resolved None, error_trace (coerce e)))
   \<and> (loadScript env url = None \<and> window_dashjs env = None \<longrightarrow>
        startLoading coerce callback env (LibraryUrl url) []
          = (Resolved None, error_trace (coerce TypeErrorObject)))
   \<and> (loadScript env url = None \<and> window_dashjs env = Some d \<and> MediaPlayer d = None \<longrightarrow>
        startLoading coerce callback env (LibraryUrl url) []
          = (Resolved None, error_trace (coerce (ErrorObject (script_error_message (dev env))))))
   \<and> (\<not> has_prototype f \<and> call_result f = LoaderRejects e \<longrightarrow>
        startLoading coerce callback env (LibraryFunction f) []
          = (Resolved None, error_trace (coerce e)))
   \<and> (\<not> has_prototype f \<and> call_result f = LoaderResolves None \<longrightarrow>
        startLoading coerce callback env (LibraryFunction f) []
          = (Resolved None, error_trace (coerce (ErrorObject (import_error_message (dev env))))))
   \<and> (obtained env lib = Some (Inr c) \<and> callback c = None
        \<and> window_dashjs env = Some d \<and> \<not> supportsMediaSource d \<longrightarrow>
        startLoading coerce callback env lib []
          = (Resolved None, loaded_trace c @ unsupported_trace))"
proof -
  have "\<not> isString src \<longrightarrow> loadDASHScript env src cbs t = (Resolved None, t)"
    by (cases src) (simp_all add: isString_def loadDASHScript_def)
  then show ?thesis
    by (simp add: startLoading_result obtained_def script_constructor_def
        import_constructor_def check_support_def)
qed

section \<open>ARIA menu: ids, attributes, idle changes\<close>

lemma digit_char_inj: "a < 10 \<Longrightarrow> b < 10 \<Longrightarrow> digit_char a = digit_char b \<Longrightarrow> a = b"
  by (simp add: digit_char_def)

lemma digit_char_of_char: "d < 10 \<Longrightarrow> of_char (digit_char d) = 48 + d"
  by (simp add: digit_char_def)

lemma decimal_nonempty: "decimal n \<noteq> []"
  by (subst decimal.simps) simp

lemma decimal_inj: "decimal n = decimal m \<Longrightarrow> n = m"
proof (induction n arbitrary: m rule: decimal.induct)
  case (1 n)
  show ?case
  proof (cases "n < 10")
    case small: True
    show ?thesis
    proof (cases "m < 10")
      case True
      with small "1.prems" show ?thesis
        by (simp add: decimal.simps [of n] decimal.simps [of m] digit_char_inj)
    next
      case False
      with small "1.prems" decimal_nonempty [of "m div 10"] show ?thesis
        by (simp add: decimal.simps [of n] decimal.simps [of m])
    qed
  next
    case big: False
    show ?thesis
    proof (cases "m < 10")
      case True
      with big "1.prems" decimal_nonempty [of "n div 10"] show ?thesis
        by (simp add: decimal.simps [of n] decimal.simps [of m])
    next
      case False
      with big "1.prems" have eq: "decimal (n div 10) = decimal (m div 10)"
        and dg: "digit_char (n mod 10) = digit_char (m mod 10)"
        by (simp_all add: decimal.simps [of n] decimal.simps [of m])
      from "1.IH" [OF big eq] have "n div 10 = m div 10" .
      moreover from dg have "n mod 10 = m mod 10"
        by (rule digit_char_inj [rotated 2]) simp_all
      ultimately show ?thesis
        by (metis div_mult_mod_eq)
    qed
  qed
qed

lemma decimal_hd: "\<exists>d cs. d < 10 \<and> decimal n = digit_char d # cs"
proof (induction n rule: decimal.induct)
  case (1 n)
  show ?case
  proof (cases "n < 10")
    case True
    then show ?thesis by (subst decimal.simps) auto
  next
    case False
    from "1.IH" [OF False] obtain d cs where "d < 10" "decimal (n div 10) = digit_char d # cs"
      by blast
    with False show ?thesis by (subst decimal.simps) auto
  qed
qed

lemma triggerId_inj: "(triggerId n = triggerId k) = (n = k)"
  by (auto simp: triggerId_def dest: decimal_inj)

lemma menuId_inj: "(menuId n = menuId k) = (n = k)"
  by (auto simp: menuId_def dest: decimal_inj)

lemma triggerId_not_menuId: "triggerId n \<noteq> menuId k"
proof
  assume "triggerId n = menuId k"
  then have eq: "decimal k = ''trigger-'' @ decimal n"
    by (simp add: triggerId_def menuId_def)
  obtain d cs where d: "d < 10" "decimal k = digit_char d # cs"
    using decimal_hd by blast
  with eq have "digit_char d = CHR ''t''" by simp
  then have "of_char (digit_char d) = (of_char (CHR ''t'') :: nat)" by simp
  with d(1) show False by (simp add: digit_char_of_char)
qed

lemmas page_effects =
  setAttribute_def getAttribute_def set_position_def set_pointerEvents_def set_display_def
  body_append_def focus_def dispatchEvent_def stopPropagation_def hideDocumentScrollbar_def
  requestAnimationFrame_def add_open_def add_listeners_def remove_listeners_def

lemma onChange_idle:
  "hidden_already open st \<Longrightarrow> onChange ab opts None (Some open) st = st"
  by (simp add: onChange_def stopPropagation_def requested_open_def)

lemma subscribe_idle:
  "menuEl st = Some el \<Longrightarrow> getAttribute el ''aria-hidden'' st = Some ''true'' \<Longrightarrow>
   activeMenu_subscribe ab opts el st = st"
  by (simp add: activeMenu_subscribe_def activeMenu_subscriber_def onChange_idle
      hidden_already_def js_String_def split: option.splits)

lemma menu_attrs:
  "attrs (dom (menu ab options el st) el) =
     (attrs (dom st el))(''id'' \<mapsto> menuId (menu_number st), ''role'' \<mapsto> ''menu'',
        ''tabindex'' \<mapsto> ''-1'', ''aria-hidden'' \<mapsto> ''true'',
        ''aria-describedby'' \<mapsto> triggerId (menu_number st))"
  unfolding menu_def Let_def
  apply (subst subscribe_idle)
    apply (simp add: page_effects place_menu_def)
   apply (simp add: page_effects place_menu_def)
  apply (simp add: page_effects place_menu_def)
  done

lemma menu_result:
  "menu ab options el st =
     requestAnimationFrame (MenuAttached el)
       (add_listeners (MenuAction el) (menu_listeners options el)
         (setAttribute el ''aria-describedby'' (triggerId (menu_number st))
           (setAttribute el ''aria-hidden'' ''true''
             (setAttribute el ''tabindex'' ''-1''
               (setAttribute el ''role'' ''menu''
                 (setAttribute el ''id'' (menuId (menu_number st))
                   (set_display el ''none''
                     (set_pointerEvents el ''none''
                       (place_menu options el (st\<lparr>menuEl := Some el\<rparr>))))))))))"
proof -
  define X where "X =
    setAttribute el ''aria-describedby'' (triggerId (menu_number st))
      (setAttribute el ''aria-hidden'' ''true''
        (setAttribute el ''tabindex'' ''-1''
          (setAttribute el ''role'' ''menu''
            (setAttribute el ''id'' (menuId (menu_number st))
              (set_display el ''none''
                (set_pointerEvents el ''none''
                  (place_menu options el (st\<lparr>menuEl := Some el\<rparr>))))))))"
  have p1: "menuEl X = Some el"
    by (simp add: X_def page_effects place_menu_def)
  have p2: "getAttribute el ''aria-hidden'' X = Some ''true''"
    by (simp add: X_def page_effects place_menu_def)
  have idle: "activeMenu_subscribe ab options el X = X"
    by (rule subscribe_idle [OF p1 p2])
  show ?thesis
    unfolding menu_def Let_def X_def [symmetric] by (simp add: idle)
qed

lemma menu_styles:
  "style_display (dom (menu ab options el st) el) = ''none''
   \<and> style_pointerEvents (dom (menu ab options el st) el) = ''none''"
  by (simp add: menu_result page_effects place_menu_def)

lemma menuTrigger_attrs:
  "attrs (dom (menuTrigger options el st) el) =
     (attrs (dom st el))(''id'' \<mapsto> triggerId (menu_number st),
        ''role'' \<mapsto> (case attrs (dom st el) ''role'' of None \<Rightarrow> ''button'' | Some r \<Rightarrow> r),
        ''aria-controls'' \<mapsto> menuId (menu_number st), ''aria-expanded'' \<mapsto> ''false'',
        ''aria-haspopup'' \<mapsto> (case menu_type options of None \<Rightarrow> ''menu'' | Some ty \<Rightarrow> ty))"
  by (cases "attrs (dom st el) ''role''")
    (auto simp add: menuTrigger_def Let_def page_effects set_trigger_role_def)

text \<open>
  C5. After \<^verbatim>\<open>menuTrigger(el)\<close> the element has the instance's trigger id, role
  \<^verbatim>\<open>button\<close> unless it had a role (which it keeps), \<^verbatim>\<open>aria-controls\<close> naming the menu id,
  \<^verbatim>\<open>aria-expanded\<close> \<^verbatim>\<open>false\<close>, and \<^verbatim>\<open>aria-haspopup\<close> the configured type or \<^verbatim>\<open>menu\<close>. After
  \<^verbatim>\<open>menu(el)\<close> the element has the menu id, role \<^verbatim>\<open>menu\<close>, \<^verbatim>\<open>tabindex\<close> \<^verbatim>\<open>-1\<close>, \<^verbatim>\<open>aria-hidden\<close>
  \<^verbatim>\<open>true\<close>, \<^verbatim>\<open>aria-describedby\<close> naming the trigger id, display \<^verbatim>\<open>none\<close> and pointer-events
  \<^verbatim>\<open>none\<close>. The ids are unique: each instance takes the next number of the module's
  counter, different numbers give different trigger ids and different menu ids, and
  no trigger id is a menu id.
\<close>

theorem attach_sets_aria_contract:
  "attrs (dom (menuTrigger options el st) el) ''id'' = Some (triggerId (menu_number st))
   \<and> attrs (dom (menuTrigger options el st) el) ''role''
       = (case attrs (dom st el) ''role'' of None \<Rightarrow> Some ''button'' | Some r \<Rightarrow> Some r)
   \<and> attrs (dom (menuTrigger options el st) el) ''aria-controls'' = Some (menuId (menu_number st))
   \<and> attrs (dom (menuTrigger options el st) el) ''aria-expanded'' = Some ''false''
   \<and> attrs (dom (menuTrigger options el st) el) ''aria-haspopup''
       = Some (case menu_type options of None \<Rightarrow> ''menu'' | Some ty \<Rightarrow> ty)
   \<and> attrs (dom (menu ariaBool options el st) el) ''id'' = Some (menuId (menu_number st))
   \<and> attrs (dom (menu ariaBool options el st) el) ''role'' = Some ''menu''
   \<and> attrs (dom (menu ariaBool options el st) el) ''tabindex'' = Some ''-1''
   \<and> attrs (dom (menu ariaBool options el st) el) ''aria-hidden'' = Some ''true''
   \<and> attrs (dom (menu ariaBool options el st) el) ''aria-describedby''
       = Some (triggerId (menu_number st))
   \<and> style_display (dom (menu ariaBool options el st) el) = ''none''
   \<and> style_pointerEvents (dom (menu ariaBool options el st) el) = ''none''
   \<and> menu_number (fst (createAriaMenu options id_counter pg)) = id_counter + 1
   \<and> snd (createAriaMenu options id_counter pg) = id_counter + 1
   \<and> (triggerId n = triggerId k) = (n = k)
   \<and> (menuId n = menuId k) = (n = k)
   \<and> triggerId n \<noteq> menuId k"
proof -
  have created: "menu_number (fst (createAriaMenu options id_counter pg)) = id_counter + 1
      \<and> snd (createAriaMenu options id_counter pg) = id_counter + 1"
    by (simp add: createAriaMenu_def page.extend_def menu_state.fields_def)
  show ?thesis
    using created triggerId_not_menuId [of n k]
    by (simp add: menuTrigger_attrs menu_attrs menu_styles triggerId_inj menuId_inj
        split: option.splits)
qed

lemma hidden_already_stopPropagation [simp]:
  "hidden_already open (stopPropagation event st) = hidden_already open st"
  by (simp add: hidden_already_def stopPropagation_def getAttribute_def split: option.splits)

lemma requested_open_stopPropagation [simp]:
  "requested_open force (stopPropagation event st) = requested_open force st"
  by (simp add: requested_open_def stopPropagation_def split: option.splits)

lemma onChange_returns_early:
  "hidden_already (requested_open force st) st \<Longrightarrow>
   onChange ab options event force st = stopPropagation event st"
  by (simp add: onChange_def Let_def)

lemma change_menu_hidden:
  "menuEl st = Some m \<Longrightarrow>
   getAttribute m ''aria-hidden'' (change_menu ab options event open st) = Some (ab (\<not> open))"
  by (simp add: change_menu_def Let_def on_trigger_def on_menu_def page_effects onHide_def
      onShow_def split: option.splits)

lemma change_menu_menuEl [simp]:
  "menuEl (change_menu ab options event open st) = menuEl st"
  by (simp add: change_menu_def Let_def on_trigger_def on_menu_def page_effects onHide_def
      onShow_def split: option.splits)

lemma stopPropagation_menuEl [simp]: "menuEl (stopPropagation event st) = menuEl st"
  by (simp add: stopPropagation_def split: option.splits)

lemma onChange_menuEl [simp]: "menuEl (onChange ab options event force st) = menuEl st"
  by (simp add: onChange_def Let_def)

lemma onChange_forced_hidden:
  assumes "menuEl st = Some m" "ab (\<not> open) = js_String (\<not> open)"
  shows "hidden_already open (onChange ab options event (Some open) st)"
proof (cases "hidden_already open st")
  case True
  then show ?thesis
    by (simp add: onChange_returns_early requested_open_def)
next
  case False
  then have "onChange ab options event (Some open) st
      = change_menu ab options event open (stopPropagation event st)"
    by (simp add: onChange_def Let_def requested_open_def)
  with assms show ?thesis
    by (simp add: hidden_already_def change_menu_hidden)
qed

text \<open>
  C10. When \<^verbatim>\<open>onChange\<close> is called while the menu element's \<^verbatim>\<open>aria-hidden\<close> already is
  what the requested state asks for, it stops the propagation of the event it was
  given and returns: the elements, the calls of \<^verbatim>\<open>hideDocumentScrollbar\<close>, the requests
  to the popper and the frame queue are as before. Hence, with a menu element
  attached, a second \<^verbatim>\<open>openMenu\<close> right after a first changes nothing but the
  propagation of its own event, and likewise \<^verbatim>\<open>closeMenu\<close>. (\<^verbatim>\<open>ariaBool\<close> has to render
  the boolean as \<^verbatim>\<open>String\<close> does.)
\<close>

theorem onChange_is_idempotent:
  "(menuEl st = Some m
      \<and> getAttribute m ''aria-hidden'' st = Some (js_String (\<not> requested_open force st)) \<longrightarrow>
      onChange ariaBool options event force st = stopPropagation event st
      \<and> dom (onChange ariaBool options event force st) = dom st
      \<and> scrollbar_calls (onChange ariaBool options event force st) = scrollbar_calls st
      \<and> popper_calls (onChange ariaBool options event force st) = popper_calls st
      \<and> frame_tasks (onChange ariaBool options event force st) = frame_tasks st)
   \<and> (menuEl st = Some m \<and> ariaBool False = ''false'' \<longrightarrow>
      openMenu ariaBool options event2 (openMenu ariaBool options event1 st)
        = stopPropagation event2 (openMenu ariaBool options event1 st))
   \<and> (menuEl st = Some m \<and> ariaBool True = ''true'' \<longrightarrow>
      closeMenu ariaBool options event2 (closeMenu ariaBool options event1 st)
        = stopPropagation event2 (closeMenu ariaBool options event1 st))"
proof -
  have early: "menuEl st = Some m
      \<and> getAttribute m ''aria-hidden'' st = Some (js_String (\<not> requested_open force st)) \<Longrightarrow>
      onChange ariaBool options event force st = stopPropagation event st"
    by (rule onChange_returns_early) (simp add: hidden_already_def)
  have same: "dom (stopPropagation event st) = dom st
      \<and> scrollbar_calls (stopPropagation event st) = scrollbar_calls st
      \<and> popper_calls (stopPropagation event st) = popper_calls st
      \<and> frame_tasks (stopPropagation event st) = frame_tasks st"
    by (simp add: stopPropagation_def split: option.splits)
  have twice_open: "menuEl st = Some m \<and> ariaBool False = ''false'' \<Longrightarrow>
      openMenu ariaBool options event2 (openMenu ariaBool options event1 st)
        = stopPropagation event2 (openMenu ariaBool options event1 st)"
    unfolding openMenu_def
    by (rule onChange_returns_early)
      (simp add: requested_open_def onChange_forced_hidden [where m = m] js_String_def)
  have twice_close: "menuEl st = Some m \<and> ariaBool True = ''true'' \<Longrightarrow>
      closeMenu ariaBool options event2 (closeMenu ariaBool options event1 st)
        = stopPropagation event2 (closeMenu ariaBool options event1 st)"
    unfolding closeMenu_def
    by (rule onChange_returns_early)
      (simp add: requested_open_def onChange_forced_hidden [where m = m] js_String_def)
  from early same twice_open twice_close show ?thesis by simp
qed

section \<open>ARIA menu: opening, focus and Escape\<close>

lemma fold_add_open:
  "fold (\<lambda>c s. add_open (g c) (add_open (f c) s)) cs st
     = st\<lparr>openDisposal := openDisposal st @ concat (map (\<lambda>c. [f c, g c]) cs)\<rparr>"
  by (induction cs arbitrary: st) (simp_all add: add_open_def)

lemma closeOnSelect_result:
  assumes "close_query_returns options st"
  shows "closeOnSelect options st
     = Some (st\<lparr>openDisposal := openDisposal st @ select_listeners options st\<rparr>)"
proof (cases "menuEl st")
  case None
  then show ?thesis by (simp add: closeOnSelect_def select_listeners_def)
next
  case (Some m)
  show ?thesis
  proof (cases "close_selectors options")
    case None
    with Some show ?thesis by (simp add: closeOnSelect_def select_listeners_def)
  next
    case (Some sel)
    with assms \<open>menuEl st = Some m\<close> obtain els where "query_close_targets st m sel = Some els"
      by (auto simp add: close_query_returns_def)
    with Some \<open>menuEl st = Some m\<close> show ?thesis
      by (simp add: closeOnSelect_def select_listeners_def fold_add_open)
  qed
qed

lemma query_close_targets_same:
  "querySelectorAll st' = querySelectorAll st \<Longrightarrow>
   query_close_targets st' m sel = query_close_targets st m sel"
  by (simp add: query_close_targets_def)

lemma close_query_returns_same:
  assumes "menuEl st' = menuEl st" "querySelectorAll st' = querySelectorAll st"
  shows "close_query_returns options st' = close_query_returns options st"
proof -
  have "\<And>m sel. query_close_targets st' m sel = query_close_targets st m sel"
    using assms(2) by (rule query_close_targets_same)
  then show ?thesis
    unfolding close_query_returns_def assms(1) by (simp split: option.splits)
qed

lemma closeOnSelect_throws:
  "menuEl st = Some m \<Longrightarrow> close_selectors options = Some [] \<Longrightarrow> closeOnSelect options st = None"
  by (simp add: closeOnSelect_def query_close_targets_def)

lemma fold_subscriber_own:
  "list_all ((=) m) els \<Longrightarrow>
   fold (\<lambda>el. activeMenu_subscriber ab options el (Some m)) els st = st"
  by (induction els arbitrary: st) (simp_all add: activeMenu_subscriber_def)

lemma fold_subscriber_None:
  "fold (\<lambda>el. activeMenu_subscriber ab options el None) els st = st"
  by (induction els arbitrary: st) (simp_all add: activeMenu_subscriber_def)

lemma activeMenu_set_own:
  "list_all ((=) m) (subscribed (listeners st)) \<Longrightarrow>
   activeMenu_set ab options (Some m) st = st\<lparr>activeMenu := Some m\<rparr>"
  by (simp add: activeMenu_set_def fold_subscriber_own)

lemma activeMenu_set_None:
  "activeMenu_set ab options None st = st\<lparr>activeMenu := None\<rparr>"
  by (simp add: activeMenu_set_def fold_subscriber_None)

text \<open>What a forced change that is not idle leaves.\<close>

lemma onChange_forced:
  "\<not> hidden_already open st \<Longrightarrow>
   onChange ab options event (Some open) st
     = change_menu ab options event open (stopPropagation event st)"
  by (simp add: onChange_def Let_def requested_open_def)

lemma change_menu_wiring:
  "triggerEl (change_menu ab options event open st) = triggerEl st
   \<and> listeners (change_menu ab options event open st) = listeners st
   \<and> openDisposal (change_menu ab options event open st) = openDisposal st
   \<and> focused (change_menu ab options event open st) = focused st
   \<and> activeMenu (change_menu ab options event open st) = activeMenu st
   \<and> querySelectorAll (change_menu ab options event open st) = querySelectorAll st
   \<and> popper_calls (change_menu ab options event open st)
       = popper_calls st @ [if open then PopperShow event else PopperHide event]"
  by (simp add: change_menu_def Let_def on_trigger_def on_menu_def page_effects onHide_def
      onShow_def split: option.splits)

lemma stopPropagation_wiring:
  "triggerEl (stopPropagation event st) = triggerEl st
   \<and> listeners (stopPropagation event st) = listeners st
   \<and> openDisposal (stopPropagation event st) = openDisposal st
   \<and> focused (stopPropagation event st) = focused st
   \<and> activeMenu (stopPropagation event st) = activeMenu st
   \<and> querySelectorAll (stopPropagation event st) = querySelectorAll st
   \<and> popper_calls (stopPropagation event st) = popper_calls st"
  by (simp add: stopPropagation_def split: option.splits)

lemma onShow_callback_keyboard:
  assumes "menuEl st = Some m" "list_all ((=) m) (subscribed (listeners st))"
    and "close_query_returns options st"
  shows "onShow_callback ab options event st
       = Returned (state_of (onShow_callback ab options event st))
   \<and> menuEl (state_of (onShow_callback ab options event st)) = Some m
   \<and> triggerEl (state_of (onShow_callback ab options event st)) = triggerEl st
   \<and> listeners (state_of (onShow_callback ab options event st)) = listeners st
   \<and> popper_calls (state_of (onShow_callback ab options event st)) = popper_calls st
   \<and> attrs (dom (state_of (onShow_callback ab options event st)) el) = attrs (dom st el)
   \<and> activeMenu (state_of (onShow_callback ab options event st)) = Some m
   \<and> focused (state_of (onShow_callback ab options event st))
       = (if is_keyboard event then Some m else focused st)
   \<and> filter is_trap (openDisposal (state_of (onShow_callback ab options event st)))
       = filter is_trap (openDisposal st) @ (if is_keyboard event then [FocusTrap m] else [])"
proof -
  define st2 where "st2 =
    (if \<not> noOutSideClick options
     then add_open (Listener OnBody ''pointerup'')
            (if \<not> noPlacement options then add_open WatchPosition st else st)
     else (if \<not> noPlacement options then add_open WatchPosition st else st))"
  have st2: "menuEl st2 = Some m \<and> triggerEl st2 = triggerEl st \<and> listeners st2 = listeners st
      \<and> popper_calls st2 = popper_calls st \<and> dom st2 = dom st \<and> focused st2 = focused st
      \<and> querySelectorAll st2 = querySelectorAll st
      \<and> filter is_trap (openDisposal st2) = filter is_trap (openDisposal st)"
    using assms(1) by (simp add: st2_def add_open_def)
  have returns: "close_query_returns options st2"
    using assms(3) st2 assms(1)
    by (simp add: close_query_returns_same [of st2 st])
  define st3 where "st3 = st2\<lparr>openDisposal := openDisposal st2 @ select_listeners options st2\<rparr>"
  have selected: "closeOnSelect options st2 = Some st3"
    using returns by (simp add: closeOnSelect_result st3_def)
  define pre where "pre = closeSubmenuOnPointerLeave options st3"
  have pre: "menuEl pre = Some m \<and> triggerEl pre = triggerEl st \<and> listeners pre = listeners st
      \<and> popper_calls pre = popper_calls st \<and> dom pre = dom st \<and> focused pre = focused st
      \<and> filter is_trap (openDisposal pre) = filter is_trap (openDisposal st)"
    using st2
    by (simp add: pre_def st3_def closeSubmenuOnPointerLeave_def setTimeout_def
        add_open_def select_listeners_def split: option.splits)
  define shown where "shown = show_menu_element event m pre"
  have shown: "menuEl shown = Some m \<and> triggerEl shown = triggerEl st
      \<and> listeners shown = listeners st \<and> popper_calls shown = popper_calls st
      \<and> attrs (dom shown el) = attrs (dom st el)
      \<and> focused shown = (if is_keyboard event then Some m else focused st)
      \<and> filter is_trap (openDisposal shown)
          = filter is_trap (openDisposal st) @ (if is_keyboard event then [FocusTrap m] else [])"
    using pre by (simp add: shown_def show_menu_element_def Let_def page_effects)
  have "onShow_after_select ab options event st3 = activeMenu_set ab options (Some m) shown"
    using pre shown
    by (simp add: onShow_after_select_def Let_def pre_def [symmetric] on_menu_def
        shown_def [symmetric] activeMenu_set_menuEl_def)
  also have "\<dots> = shown\<lparr>activeMenu := Some m\<rparr>"
    using assms(2) shown by (simp add: activeMenu_set_own)
  finally have after: "onShow_after_select ab options event st3 = shown\<lparr>activeMenu := Some m\<rparr>" .
  have "onShow_callback ab options event st = Returned (shown\<lparr>activeMenu := Some m\<rparr>)"
    using selected after
    by (simp add: onShow_callback_def Let_def st2_def [symmetric])
  then show ?thesis using shown by simp
qed

lemma onHide_callback_result:
  assumes "menuEl st = Some m"
  shows "menuEl (onHide_callback ab options event st) = Some m
   \<and> triggerEl (onHide_callback ab options event st) = triggerEl st
   \<and> popper_calls (onHide_callback ab options event st) = popper_calls st
   \<and> attrs (dom (onHide_callback ab options event st) el) = attrs (dom st el)
   \<and> openDisposal (onHide_callback ab options event st) = []
   \<and> focused (onHide_callback ab options event st)
       = (if is_keyboard event
          then (case triggerEl st of None \<Rightarrow> focused st | Some t \<Rightarrow> Some t)
          else focused st)"
proof -
  define hidden where "hidden =
    hide_menu_element m (if is_keyboard event then on_trigger focus (dispose_open st)
                         else dispose_open st)"
  have hidden: "menuEl hidden = Some m \<and> triggerEl hidden = triggerEl st
      \<and> popper_calls hidden = popper_calls st
      \<and> attrs (dom hidden el) = attrs (dom st el)
      \<and> openDisposal hidden = []
      \<and> focused hidden
          = (if is_keyboard event
             then (case triggerEl st of None \<Rightarrow> focused st | Some t \<Rightarrow> Some t)
             else focused st)"
    using assms
    by (simp add: hidden_def hide_menu_element_def on_trigger_def dispose_open_def page_effects
        split: option.splits)
  have "onHide_callback ab options event st = activeMenu_release ab options hidden"
    using assms
    by (simp add: onHide_callback_def Let_def on_menu_def hidden_def on_trigger_def
        dispose_open_def focus_def split: option.splits)
  moreover have "activeMenu_release ab options hidden = hidden
      \<or> activeMenu_release ab options hidden = hidden\<lparr>activeMenu := None\<rparr>"
    by (simp add: activeMenu_release_def activeMenu_set_None)
  ultimately show ?thesis using hidden by auto
qed

lemma open_then_callback:
  assumes m: "menuEl st = Some m"
    and closed: "getAttribute m ''aria-hidden'' st = Some ''true''"
    and idle: "popper_calls st = []"
    and own: "list_all ((=) m) (subscribed (listeners st))"
    and ab: "ab False = ''false''"
    and query: "close_query_returns options st"
  shows "menuEl (after_callback ab options (openMenu ab options event st)) = Some m
   \<and> triggerEl (after_callback ab options (openMenu ab options event st)) = triggerEl st
   \<and> popper_calls (after_callback ab options (openMenu ab options event st)) = []
   \<and> getAttribute m ''aria-hidden'' (after_callback ab options (openMenu ab options event st))
       = Some ''false''
   \<and> focused (after_callback ab options (openMenu ab options event st))
       = (if is_keyboard event then Some m else focused st)
   \<and> filter is_trap (openDisposal (after_callback ab options (openMenu ab options event st)))
       = filter is_trap (openDisposal st) @ (if is_keyboard event then [FocusTrap m] else [])"
proof -
  define opened where "opened = after_callback ab options (openMenu ab options event st)"
  define requested where "requested = change_menu ab options event True (stopPropagation event st)"
  have not_idle: "\<not> hidden_already True st"
    using m closed by (simp add: hidden_already_def js_String_def)
  have req: "openMenu ab options event st = requested"
    using not_idle by (simp add: openMenu_def onChange_forced requested_def)
  define waiting where "waiting = requested\<lparr>popper_calls := []\<rparr>"
  have calls: "popper_calls requested = [PopperShow event]"
    using idle by (simp add: requested_def change_menu_wiring stopPropagation_wiring)
  have waiting: "menuEl waiting = Some m \<and> triggerEl waiting = triggerEl st
      \<and> listeners waiting = listeners st \<and> popper_calls waiting = []
      \<and> focused waiting = focused st \<and> openDisposal waiting = openDisposal st
      \<and> querySelectorAll waiting = querySelectorAll st
      \<and> getAttribute m ''aria-hidden'' waiting = Some ''false''"
    using m ab change_menu_hidden [of "stopPropagation event st" m ab options event True]
    by (simp add: waiting_def requested_def change_menu_wiring stopPropagation_wiring
        getAttribute_def)
  have "opened = state_of (onShow_callback ab options event waiting)"
    by (simp add: opened_def req after_callback_def popper_calls_back_def calls waiting_def)
  moreover have "list_all ((=) m) (subscribed (listeners waiting))"
    using own waiting by simp
  moreover have "close_query_returns options waiting"
    using query m waiting
    by (simp add: close_query_returns_same [of waiting st])
  ultimately show ?thesis
    unfolding opened_def [symmetric]
    using onShow_callback_keyboard [of waiting m options ab event m] waiting
    by (simp add: getAttribute_def)
qed

lemma escape_then_callback:
  assumes m: "menuEl st = Some m" and t: "triggerEl st = Some t"
    and opened: "getAttribute m ''aria-hidden'' st = Some ''false''"
    and idle: "popper_calls st = []"
    and trap: "filter is_trap (openDisposal st) \<noteq> []"
    and key: "isKeyboardEvent escape"
    and ab: "ab True = ''true''"
  shows "getAttribute m ''aria-hidden''
       (after_callback ab options (escape_pressed ab options escape st)) = Some ''true''
   \<and> openDisposal (after_callback ab options (escape_pressed ab options escape st)) = []
   \<and> focused (after_callback ab options (escape_pressed ab options escape st)) = Some t"
proof -
  define closed where "closed = after_callback ab options (escape_pressed ab options escape st)"
  define requested where
    "requested = change_menu ab options (Some escape) False (stopPropagation (Some escape) st)"
  have not_idle: "\<not> hidden_already False st"
    using m opened by (simp add: hidden_already_def js_String_def)
  have "list_ex is_trap (openDisposal st)"
    using trap by (simp add: list_ex_iff filter_empty_conv)
  then have req: "escape_pressed ab options escape st = requested"
    using not_idle by (simp add: escape_pressed_def onEscape_def onChange_forced requested_def)
  define waiting where "waiting = requested\<lparr>popper_calls := []\<rparr>"
  have calls: "popper_calls requested = [PopperHide (Some escape)]"
    using idle by (simp add: requested_def change_menu_wiring stopPropagation_wiring)
  have waiting: "menuEl waiting = Some m \<and> triggerEl waiting = Some t
      \<and> getAttribute m ''aria-hidden'' waiting = Some ''true''"
    using m t ab change_menu_hidden [of "stopPropagation (Some escape) st" m ab options "Some escape" False]
    by (simp add: waiting_def requested_def change_menu_wiring stopPropagation_wiring
        getAttribute_def)
  have "closed = onHide_callback ab options (Some escape) waiting"
    by (simp add: closed_def req after_callback_def popper_calls_back_def calls waiting_def)
  then show ?thesis
    unfolding closed_def [symmetric]
    using onHide_callback_result [of waiting m ab options "Some escape" m] waiting key
    by (simp add: getAttribute_def is_keyboard_def)
qed

lemma attached_sample_facts:
  "menuEl attached_sample = Some 2 \<and> triggerEl attached_sample = Some 1
   \<and> getAttribute 2 ''aria-hidden'' attached_sample = Some ''true''
   \<and> popper_calls attached_sample = [] \<and> openDisposal attached_sample = []
   \<and> focused attached_sample = None
   \<and> subscribed (listeners attached_sample) = [2]
   \<and> close_query_returns options_sample attached_sample"
  by (simp add: attached_sample_def menu_result menuTrigger_def Let_def createAriaMenu_def
      page.extend_def menu_state.fields_def page_sample_def options_sample_def page_effects
      place_menu_def set_trigger_role_def menu_listeners_def trigger_listeners_def
      close_query_returns_def)

text \<open>
  C4, as the code has it. Take a closed menu with its trigger and menu elements
  attached, subscribed to \<^verbatim>\<open>activeMenu\<close> for no element but its menu element, with no
  request pending at the popper, and with close selectors, if any are configured,
  that \<^verbatim>\<open>querySelectorAll\<close> accepts. When it is opened by a keyboard event, then once
  the popper has called back the menu element has the focus and a focus trap is on
  it; Escape then closes the menu, and once the popper has called back the trap is
  gone and the focus is on the trigger. When it is opened by an event that is no
  keyboard event, or by none, the menu is open with the focus where it was and no
  trap added.
\<close>

theorem keyboard_open_traps_focus:
  assumes "menuEl st = Some m" and "triggerEl st = Some t"
    and "getAttribute m ''aria-hidden'' st = Some ''true''"
    and "popper_calls st = []"
    and "list_all ((=) m) (subscribed (listeners st))"
    and "close_query_returns options st"
    and "ariaBool True = ''true''" and "ariaBool False = ''false''"
    and "isKeyboardEvent key" and "isKeyboardEvent escape"
  shows
    "(let opened = after_callback ariaBool options (openMenu ariaBool options (Some key) st);
          closed = after_callback ariaBool options (escape_pressed ariaBool options escape opened)
      in getAttribute m ''aria-hidden'' opened = Some ''false''
         \<and> focused opened = Some m \<and> trapped opened m
         \<and> getAttribute m ''aria-hidden'' closed = Some ''true''
         \<and> focused closed = Some t \<and> openDisposal closed = [])
     \<and> (\<not> is_keyboard other \<longrightarrow>
          (let opened = after_callback ariaBool options (openMenu ariaBool options other st)
           in getAttribute m ''aria-hidden'' opened = Some ''false''
              \<and> focused opened = focused st
              \<and> filter is_trap (openDisposal opened) = filter is_trap (openDisposal st)))"
proof -
  define opened where
    "opened = after_callback ariaBool options (openMenu ariaBool options (Some key) st)"
  have o: "menuEl opened = Some m \<and> triggerEl opened = Some t \<and> popper_calls opened = []
      \<and> getAttribute m ''aria-hidden'' opened = Some ''false'' \<and> focused opened = Some m
      \<and> filter is_trap (openDisposal opened) = filter is_trap (openDisposal st) @ [FocusTrap m]"
    unfolding opened_def
    using open_then_callback [where ab = ariaBool and options = options and event = "Some key",
        OF assms(1) assms(3) assms(4) assms(5) assms(8) assms(6)]
      assms(2) assms(9)
    by (simp add: is_keyboard_def)
  then have "FocusTrap m \<in> set (filter is_trap (openDisposal opened))" by simp
  then have trap: "trapped opened m" by (simp add: trapped_def)
  have some: "filter is_trap (openDisposal opened) \<noteq> []" using o by simp
  have c: "getAttribute m ''aria-hidden''
        (after_callback ariaBool options (escape_pressed ariaBool options escape opened))
        = Some ''true''
      \<and> openDisposal (after_callback ariaBool options
          (escape_pressed ariaBool options escape opened)) = []
      \<and> focused (after_callback ariaBool options
          (escape_pressed ariaBool options escape opened)) = Some t"
    using o some assms(10) assms(7)
    by (intro escape_then_callback) simp_all
  have p: "\<not> is_keyboard other \<longrightarrow>
      (let opened = after_callback ariaBool options (openMenu ariaBool options other st)
       in getAttribute m ''aria-hidden'' opened = Some ''false''
          \<and> focused opened = focused st
          \<and> filter is_trap (openDisposal opened) = filter is_trap (openDisposal st))"
    using open_then_callback [where ab = ariaBool and options = options and event = other,
        OF assms(1) assms(3) assms(4) assms(5) assms(8) assms(6)]
    by (simp add: Let_def)
  from o trap c p show ?thesis
    by (simp add: Let_def opened_def [symmetric])
qed

text \<open>
  C4 as stated fails for a menu opened by a pointer event: it is open, no focus trap
  is on the menu element, and the menu element has not received the focus.
\<close>

theorem pointer_open_has_no_trap:
  "getAttribute 2 ''aria-hidden'' pointer_opened_sample = Some ''false''
   \<and> \<not> trapped pointer_opened_sample 2
   \<and> focused pointer_opened_sample = None"
proof -
  have facts: "getAttribute 2 ''aria-hidden'' pointer_opened_sample = Some ''false''
      \<and> focused pointer_opened_sample = None
      \<and> filter is_trap (openDisposal pointer_opened_sample) = []"
    unfolding pointer_opened_sample_def
    using open_then_callback [of attached_sample 2 ariaBool_sample options_sample
        "Some (MenuEvent 1 False)"] attached_sample_facts
    by (simp add: ariaBool_sample_def is_keyboard_def)
  then have "FocusTrap 2 \<notin> set (filter is_trap (openDisposal pointer_opened_sample))"
    by simp
  then have "\<not> trapped pointer_opened_sample 2" by (simp add: trapped_def)
  with facts show ?thesis by simp
qed

theorem keyboard_open_traps_focus_witness:
  "(let opened = after_callback ariaBool_sample options_sample
                   (openMenu ariaBool_sample options_sample (Some (MenuEvent 1 True)) attached_sample);
        closed = after_callback ariaBool_sample options_sample
                   (escape_pressed ariaBool_sample options_sample (MenuEvent 2 True) opened)
    in getAttribute 2 ''aria-hidden'' opened = Some ''false''
       \<and> focused opened = Some 2 \<and> trapped opened 2
       \<and> getAttribute 2 ''aria-hidden'' closed = Some ''true''
       \<and> focused closed = Some 1 \<and> openDisposal closed = [])
   \<and> is_keyboard None = False
   \<and> (let opened = after_callback ariaBool_sample options_sample
                     (openMenu ariaBool_sample options_sample None attached_sample)
      in getAttribute 2 ''aria-hidden'' opened = Some ''false''
         \<and> focused opened = None
         \<and> filter is_trap (openDisposal opened) = [])"
  using keyboard_open_traps_focus [of attached_sample 2 1 options_sample ariaBool_sample
      "MenuEvent 1 True" "MenuEvent 2 True" None] attached_sample_facts
  by (simp add: ariaBool_sample_def is_keyboard_def)

theorem onChange_is_idempotent_witness:
  "onChange ariaBool_sample options_sample (Some (MenuEvent 3 False)) (Some False) attached_sample
      = stopPropagation (Some (MenuEvent 3 False)) attached_sample
   \<and> openMenu ariaBool_sample options_sample (Some (MenuEvent 2 False))
        (openMenu ariaBool_sample options_sample (Some (MenuEvent 1 False)) attached_sample)
      = stopPropagation (Some (MenuEvent 2 False))
          (openMenu ariaBool_sample options_sample (Some (MenuEvent 1 False)) attached_sample)
   \<and> closeMenu ariaBool_sample options_sample None
        (closeMenu ariaBool_sample options_sample None attached_sample)
      = closeMenu ariaBool_sample options_sample None attached_sample"
  using onChange_is_idempotent [of attached_sample 2 "Some False" ariaBool_sample options_sample
      "Some (MenuEvent 3 False)" "Some (MenuEvent 2 False)" "Some (MenuEvent 1 False)"]
    onChange_is_idempotent [of attached_sample 2 "Some False" ariaBool_sample options_sample
      None None None]
    attached_sample_facts
  by (simp add: ariaBool_sample_def requested_open_def js_String_def stopPropagation_def)

text \<open>
  With an empty list of close selectors the callback of \<^verbatim>\<open>onShow\<close> throws before it
  reaches the menu element: opened by a keyboard event, the sample menu is left
  without focus and without trap.
\<close>

lemma empty_selectors_throw:
  "\<exists>st. popper_calls_back ariaBool_sample options_no_selectors
           (openMenu ariaBool_sample options_no_selectors (Some (MenuEvent 1 True)) attached_sample)
         = Threw st \<and> focused st = None \<and> filter is_trap (openDisposal st) = []"
proof -
  define requested where "requested =
    change_menu ariaBool_sample options_no_selectors (Some (MenuEvent 1 True)) True
      (stopPropagation (Some (MenuEvent 1 True)) attached_sample)"
  have not_idle: "\<not> hidden_already True attached_sample"
    using attached_sample_facts by (simp add: hidden_already_def js_String_def)
  have req: "openMenu ariaBool_sample options_no_selectors (Some (MenuEvent 1 True)) attached_sample
      = requested"
    using not_idle by (simp add: openMenu_def onChange_forced requested_def)
  define waiting where "waiting = requested\<lparr>popper_calls := []\<rparr>"
  have calls: "popper_calls requested = [PopperShow (Some (MenuEvent 1 True))]"
    using attached_sample_facts
    by (simp add: requested_def change_menu_wiring stopPropagation_wiring)
  have waiting: "menuEl waiting = Some 2 \<and> focused waiting = None \<and> openDisposal waiting = []"
    using attached_sample_facts
    by (simp add: waiting_def requested_def change_menu_wiring stopPropagation_wiring)
  define st2 where "st2 =
    add_open (Listener OnBody ''pointerup'') (add_open WatchPosition waiting)"
  have st2: "menuEl st2 = Some 2 \<and> focused st2 = None \<and> filter is_trap (openDisposal st2) = []"
    using waiting by (simp add: st2_def add_open_def)
  then have "closeOnSelect options_no_selectors st2 = None"
    by (intro closeOnSelect_throws [where m = 2])
      (simp_all add: options_no_selectors_def)
  then have "onShow_callback ariaBool_sample options_no_selectors (Some (MenuEvent 1 True)) waiting
      = Threw st2"
    by (simp add: onShow_callback_def Let_def st2_def options_no_selectors_def
        options_sample_def)
  then have "popper_calls_back ariaBool_sample options_no_selectors requested = Threw st2"
    by (simp only: popper_calls_back_def calls list.case popper_callback.simps waiting_def)
  with st2 show ?thesis unfolding req by blast
qed

end
